theory Spec2Isabelle
  imports Complex_Main "HOL-Library.Word" "HOL-Library.AList" "HOL-Library.List_Lexorder"
    "HOL-Library.Char_ord"
begin

unbundle bit_operations_syntax

section \<open>The credential cache of the federated AWS login tool\<close>

text \<open>
  This theory embeds \<^verbatim>\<open>federated_aws_cli/cache.py\<close> and the cache switch used by
  \<^verbatim>\<open>mozilla_aws_cli/cli.py\<close>. The file system is an explicit state, every exception of the
  Python code is a value of type \<open>exn\<close>, and the standard-library and third-party functions
  whose result depends on the library version, the time zone or key material
  (\<^verbatim>\<open>json\<close>, \<^verbatim>\<open>configparser\<close>, \<^verbatim>\<open>datetime\<close>, \<^verbatim>\<open>jose.jwt\<close>) are the fields of a record \<open>env\<close>
  that every operation receives. \<^verbatim>\<open>hashlib.sha256\<close> is a fixed function and is written out.
  Python names starting with an underscore lose it (\<^verbatim>\<open>_safe_write\<close> is \<open>safe_write\<close>).
  Strings are byte strings (ASCII text, or text already encoded as UTF-8); time stamps, which
  are floats in the source, are real numbers.
\<close>

subsection \<open>hashlib.sha256(...).hexdigest()\<close>

type_synonym w32 = "32 word"

definition K256 :: "w32 list" where
  "K256 =
    [1116352408, 1899447441, 3049323471, 3921009573, 961987163, 1508970993, 2453635748, 2870763221,
     3624381080, 310598401, 607225278, 1426881987, 1925078388, 2162078206, 2614888103, 3248222580,
     3835390401, 4022224774, 264347078, 604807628, 770255983, 1249150122, 1555081692, 1996064986,
     2554220882, 2821834349, 2952996808, 3210313671, 3336571891, 3584528711, 113926993, 338241895,
     666307205, 773529912, 1294757372, 1396182291, 1695183700, 1986661051, 2177026350, 2456956037,
     2730485921, 2820302411, 3259730800, 3345764771, 3516065817, 3600352804, 4094571909, 275423344,
     430227734, 506948616, 659060556, 883997877, 958139571, 1322822218, 1537002063, 1747873779,
     1955562222, 2024104815, 2227730452, 2361852424, 2428436474, 2756734187, 3204031479, 3329325298]"

type_synonym sha_state = "w32 \<times> w32 \<times> w32 \<times> w32 \<times> w32 \<times> w32 \<times> w32 \<times> w32"

definition H256 :: sha_state where
  "H256 = (1779033703, 3144134277, 1013904242, 2773480762,
           1359893119, 2600822924, 528734635, 1541459225)"

definition rotr32 :: "nat \<Rightarrow> w32 \<Rightarrow> w32" where
  "rotr32 n x = drop_bit n x OR push_bit (32 - n) x"

definition ch :: "w32 \<Rightarrow> w32 \<Rightarrow> w32 \<Rightarrow> w32" where
  "ch x y z = (x AND y) XOR (NOT x AND z)"

definition maj :: "w32 \<Rightarrow> w32 \<Rightarrow> w32 \<Rightarrow> w32" where
  "maj x y z = (x AND y) XOR (x AND z) XOR (y AND z)"

definition bsig0 :: "w32 \<Rightarrow> w32" where
  "bsig0 x = rotr32 2 x XOR rotr32 13 x XOR rotr32 22 x"

definition bsig1 :: "w32 \<Rightarrow> w32" where
  "bsig1 x = rotr32 6 x XOR rotr32 11 x XOR rotr32 25 x"

definition ssig0 :: "w32 \<Rightarrow> w32" where
  "ssig0 x = rotr32 7 x XOR rotr32 18 x XOR drop_bit 3 x"

definition ssig1 :: "w32 \<Rightarrow> w32" where
  "ssig1 x = rotr32 17 x XOR rotr32 19 x XOR drop_bit 10 x"

definition length_bytes :: "64 word \<Rightarrow> w32 list" where
  "length_bytes v = map (\<lambda>i. ucast (drop_bit (8 * (7 - i)) v AND 255)) [0..<8]"

definition sha_pad :: "w32 list \<Rightarrow> w32 list" where
  "sha_pad m =
     m @ [128] @ replicate ((119 - length m mod 64) mod 64) 0
       @ length_bytes (8 * word_of_nat (length m))"

fun words_of :: "w32 list \<Rightarrow> w32 list" where
  "words_of (a # b # c # d # r) =
     (push_bit 24 a OR push_bit 16 b OR push_bit 8 c OR d) # words_of r"
| "words_of _ = []"

fun schedule :: "nat \<Rightarrow> w32 list \<Rightarrow> w32 list" where
  "schedule 0 w = w"
| "schedule (Suc n) w =
     (let t = length w
      in schedule n (w @ [ssig1 (w ! (t - 2)) + w ! (t - 7) + ssig0 (w ! (t - 15)) + w ! (t - 16)]))"

fun sha_round :: "(w32 \<times> w32) \<Rightarrow> sha_state \<Rightarrow> sha_state" where
  "sha_round (k, w) (a, b, c, d, e, f, g, h) =
     (let t1 = h + bsig1 e + ch e f g + k + w;
          t2 = bsig0 a + maj a b c
      in (t1 + t2, a, b, c, d + t1, e, f, g))"

fun sha_add :: "sha_state \<Rightarrow> sha_state \<Rightarrow> sha_state" where
  "sha_add (a, b, c, d, e, f, g, h) (a', b', c', d', e', f', g', h') =
     (a + a', b + b', c + c', d + d', e + e', f + f', g + g', h + h')"

definition sha_block :: "w32 list \<Rightarrow> sha_state \<Rightarrow> sha_state" where
  "sha_block blk st = sha_add st (fold sha_round (zip K256 (schedule 48 blk)) st)"

definition sha_blocks :: "w32 list \<Rightarrow> sha_state" where
  "sha_blocks ws =
     fold (\<lambda>i. sha_block (take 16 (drop (16 * i) ws))) [0..<length ws div 16] H256"

definition hexdigit :: "w32 \<Rightarrow> char" where
  "hexdigit n = ''0123456789abcdef'' ! unat (n AND 15)"

definition hex8 :: "w32 \<Rightarrow> string" where
  "hex8 w = map (\<lambda>i. hexdigit (drop_bit (4 * (7 - i)) w)) [0..<8]"

fun hex_state :: "sha_state \<Rightarrow> string" where
  "hex_state (a, b, c, d, e, f, g, h) =
     hex8 a @ hex8 b @ hex8 c @ hex8 d @ hex8 e @ hex8 f @ hex8 g @ hex8 h"

definition sha256_hexdigest :: "string \<Rightarrow> string" where
  "sha256_hexdigest s = hex_state (sha_blocks (words_of (sha_pad (map (\<lambda>c. word_of_nat (of_char c)) s))))"

subsection \<open>Exceptions, values and the library interface\<close>

text \<open>
  \<open>OSError\<close> stands for \<^verbatim>\<open>IOError\<close> too (one class in Python 3, both caught together in the
  source). \<open>ConfigParserError\<close> stands for the classes under \<^verbatim>\<open>configparser.Error\<close>.
\<close>

datatype exn =
  OSError | ValueError | KeyError | TypeError | AttributeError | JOSEError | ConfigParserError

text \<open>The documents the cache stores: what \<^verbatim>\<open>json.load\<close> returns, without floats.\<close>

datatype json =
  JNull | JBool bool | JInt int | JStr string | JArr "json list" | JObj "(string \<times> json) list"

type_synonym path = string

text \<open>
  A \<^verbatim>\<open>ConfigParser\<close> object: \<^verbatim>\<open>_defaults\<close> and \<^verbatim>\<open>_sections\<close>, both ordered dictionaries.
\<close>

record config =
  defaults :: "(string \<times> string) list"
  sections :: "(string \<times> (string \<times> string) list) list"

text \<open>What a cache operation returns; \<open>None\<close> is Python's \<^verbatim>\<open>None\<close>.\<close>

datatype pyval = PConfig config | PJson json | PPath path

type_synonym ret = "exn + pyval option"

text \<open>
  The library interface. \<open>DOT_DIR\<close> is the constant of \<^verbatim>\<open>config.py\<close>; \<open>json_dump\<close> is
  \<^verbatim>\<open>json.dump(_, f, indent=2)\<close>; \<open>strptime_timestamp\<close> is
  \<^verbatim>\<open>timestamp(datetime.datetime.strptime(_, '%Y-%m-%dT%H:%M:%SZ'))\<close>; \<open>jwt_decode token key audience\<close>
  is \<^verbatim>\<open>jwt.decode\<close>; \<open>read_file\<close> is \<^verbatim>\<open>ConfigParser.read_file\<close> on a fresh parser, given the text
  of the file; \<open>before_set\<close> is the interpolation check \<^verbatim>\<open>ConfigParser.set\<close> runs on a value.
\<close>

record env =
  DOT_DIR :: path
  json_load :: "string \<Rightarrow> exn + json"
  json_dump :: "json \<Rightarrow> string"
  strptime_timestamp :: "string \<Rightarrow> exn + real"
  jwt_decode :: "json \<Rightarrow> json \<Rightarrow> string \<Rightarrow> exn + (string \<times> json) list"
  read_file :: "string \<Rightarrow> exn + config"
  before_set :: "string \<Rightarrow> exn + string"

definition CLOCK_SKEW_ALLOWANCE :: real where
  "CLOCK_SKEW_ALLOWANCE = 300"

definition GROUP_ROLE_MAP_CACHE_TIME :: real where
  "GROUP_ROLE_MAP_CACHE_TIME = 3600"

definition S_IRWXU :: w32 where "S_IRWXU = 0x1C0"
definition S_IRWXG :: w32 where "S_IRWXG = 0x38"
definition S_IRWXO :: w32 where "S_IRWXO = 0x7"

text \<open>\<^verbatim>\<open>os.path.join\<close> of two components (posixpath).\<close>

definition path_join :: "path \<Rightarrow> path \<Rightarrow> path" where
  "path_join a b =
     (if take 1 b = ''/'' then b
      else if a = [] \<or> last a = CHR ''/'' then a @ b
      else a @ ''/'' @ b)"

definition cache_dir :: "env \<Rightarrow> path" where
  "cache_dir E = path_join (DOT_DIR E) ''cache''"

subsection \<open>The file system\<close>

text \<open>
  A node is a file or a directory: its \<^verbatim>\<open>st_mode\<close>, its modification time and its bytes.
  The state holds the nodes, the clock (\<^verbatim>\<open>time.time()\<close>), the umask, and which system calls
  fail: \<open>write_limit s p = Some k\<close> says that only \<open>k\<close> more bytes can be written to \<open>p\<close>
  before the write raises.
\<close>

record node =
  st_mode :: w32
  st_mtime :: real
  data :: string

record fs =
  files :: "path \<Rightarrow> node option"
  clock :: real
  umask :: w32
  chmod_fails :: "path \<Rightarrow> bool"
  mkdir_fails :: "path \<Rightarrow> bool"
  open_read_fails :: "path \<Rightarrow> bool"
  open_write_fails :: "path \<Rightarrow> bool"
  write_limit :: "path \<Rightarrow> nat option"

definition os_path_exists :: "path \<Rightarrow> fs \<Rightarrow> bool" where
  "os_path_exists p s = (files s p \<noteq> None)"

definition os_stat :: "path \<Rightarrow> fs \<Rightarrow> exn + node" where
  "os_stat p s = (case files s p of None \<Rightarrow> Inl OSError | Some n \<Rightarrow> Inr n)"

definition os_chmod :: "path \<Rightarrow> w32 \<Rightarrow> fs \<Rightarrow> exn + fs" where
  "os_chmod p perms s =
     (case files s p of
        None \<Rightarrow> Inl OSError
      | Some n \<Rightarrow>
          if chmod_fails s p then Inl OSError
          else Inr (s\<lparr>files := (files s)
                 (p \<mapsto> n\<lparr>st_mode := (st_mode n AND NOT 0xFFF) OR (perms AND 0xFFF)\<rparr>)\<rparr>))"

definition os_mkdir :: "path \<Rightarrow> fs \<Rightarrow> exn + fs" where
  "os_mkdir p s =
     (if mkdir_fails s p \<or> files s p \<noteq> None then Inl OSError
      else Inr (s\<lparr>files := (files s)
             (p \<mapsto> \<lparr>st_mode = 0x4000 OR (0x1FF AND NOT (umask s)), st_mtime = clock s,
                   data = []\<rparr>)\<rparr>))"

text \<open>\<^verbatim>\<open>open(path, "r")\<close> and reading the whole file.\<close>

definition open_read :: "path \<Rightarrow> fs \<Rightarrow> exn + string" where
  "open_read p s =
     (case files s p of
        None \<Rightarrow> Inl OSError
      | Some n \<Rightarrow> if open_read_fails s p then Inl OSError else Inr (data n))"

text \<open>
  \<^verbatim>\<open>os.open(path, O_WRONLY | O_CREAT | O_TRUNC, 0o600)\<close>: an existing file keeps its mode and
  loses its content at once; a new file gets mode 0600 less the umask.
\<close>

definition os_open_trunc :: "path \<Rightarrow> fs \<Rightarrow> exn + fs" where
  "os_open_trunc p s =
     (if open_write_fails s p then Inl OSError
      else Inr (s\<lparr>files := (files s)
             (p \<mapsto> (case files s p of
                      None \<Rightarrow> \<lparr>st_mode = 0x8000 OR (0x180 AND NOT (umask s)),
                               st_mtime = clock s, data = []\<rparr>
                    | Some n \<Rightarrow> n\<lparr>st_mtime := clock s, data := []\<rparr>))\<rparr>))"

definition file_write :: "path \<Rightarrow> string \<Rightarrow> fs \<Rightarrow> (exn + unit) \<times> fs" where
  "file_write p txt s =
     (case files s p of
        None \<Rightarrow> (Inl OSError, s)
      | Some n \<Rightarrow>
          (let written = (case write_limit s p of None \<Rightarrow> txt | Some k \<Rightarrow> take k txt)
           in (if length written < length txt then Inl OSError else Inr (),
               s\<lparr>files := (files s)(p \<mapsto> n\<lparr>st_mtime := clock s, data := data n @ written\<rparr>)\<rparr>)))"

subsection \<open>cache.py: permissions and guarded writes\<close>

definition fix_permissions :: "path \<Rightarrow> w32 \<Rightarrow> fs \<Rightarrow> bool \<times> fs" where
  "fix_permissions p permissions s =
     (case os_chmod p permissions s of Inl e \<Rightarrow> (False, s) | Inr s' \<Rightarrow> (True, s'))"

definition readable_by_others :: "path \<Rightarrow> bool \<Rightarrow> fs \<Rightarrow> (exn + bool) \<times> fs" where
  "readable_by_others p fix s =
     (case os_stat p s of
        Inl e \<Rightarrow> (Inl e, s)
      | Inr st \<Rightarrow>
          (let r = (st_mode st AND S_IRWXG \<noteq> 0 \<or> st_mode st AND S_IRWXO \<noteq> 0)
           in if r \<and> fix
              then (case fix_permissions p 0x180 s of (ok, s') \<Rightarrow> (Inr (\<not> ok), s'))
              else (Inr r, s)))"

text \<open>
  The decorator: with the module's flag \<open>safe\<close> false the wrapped function is not called,
  and the wrapper returns \<^verbatim>\<open>None\<close>.
\<close>

definition requires_safe_cache_dir :: "bool \<Rightarrow> (fs \<Rightarrow> ret \<times> fs) \<Rightarrow> fs \<Rightarrow> ret \<times> fs" where
  "requires_safe_cache_dir safe func s = (if \<not> safe then (Inr None, s) else func s)"

text \<open>
  \<^verbatim>\<open>with _safe_write(path) as f: ...\<close> The body is given by what it writes, or by the
  exception it raises before writing. The file is opened, and so truncated, first.
\<close>

definition safe_write :: "path \<Rightarrow> exn + string \<Rightarrow> fs \<Rightarrow> (exn + unit) \<times> fs" where
  "safe_write p body s =
     (case os_open_trunc p s of
        Inl e \<Rightarrow> (Inl e, s)
      | Inr s1 \<Rightarrow> (case body of Inl e \<Rightarrow> (Inl e, s1) | Inr txt \<Rightarrow> file_write p txt s1))"

text \<open>\<^verbatim>\<open>except (IOError, OSError)\<close> around a block whose normal result is \<open>v\<close>.\<close>

definition except_os :: "pyval option \<Rightarrow> exn + 'a \<Rightarrow> pyval option \<Rightarrow> ret" where
  "except_os handler r v =
     (case r of Inl e \<Rightarrow> (if e = OSError then Inr handler else Inl e) | Inr _ \<Rightarrow> Inr v)"

subsection \<open>cache.py: the role map\<close>

definition rolemap_path :: "env \<Rightarrow> string \<Rightarrow> path" where
  "rolemap_path E url = path_join (cache_dir E) (''rolemap_'' @ sha256_hexdigest url)"

definition read_group_role_map :: "env \<Rightarrow> bool \<Rightarrow> string \<Rightarrow> fs \<Rightarrow> ret \<times> fs" where
  "read_group_role_map E safe url =
     requires_safe_cache_dir safe (\<lambda>s.
       let p = rolemap_path E url
       in if \<not> os_path_exists p s then (Inr None, s)
          else (case readable_by_others p True s of
             (Inl e, s1) \<Rightarrow> (Inl e, s1)
           | (Inr True, s1) \<Rightarrow> (Inr None, s1)
           | (Inr False, s1) \<Rightarrow>
               (case os_stat p s1 of
                  Inl e \<Rightarrow> (Inl e, s1)
                | Inr st \<Rightarrow>
                    if clock s1 - st_mtime st > GROUP_ROLE_MAP_CACHE_TIME then (Inr None, s1)
                    else (case open_read p s1 of
                       Inl e \<Rightarrow> (except_os None (Inl e :: exn + unit) None, s1)
                     | Inr txt \<Rightarrow>
                         (case json_load E txt of
                            Inl e \<Rightarrow> (except_os None (Inl e :: exn + unit) None, s1)
                          | Inr v \<Rightarrow> (Inr (Some (PJson v)), s1))))))"

definition write_group_role_map :: "env \<Rightarrow> bool \<Rightarrow> string \<Rightarrow> json \<Rightarrow> fs \<Rightarrow> ret \<times> fs" where
  "write_group_role_map E safe url role_map =
     requires_safe_cache_dir safe (\<lambda>s.
       case safe_write (rolemap_path E url) (Inr (json_dump E role_map @ ''\<newline>'')) s of
         (r, s1) \<Rightarrow> (except_os None r None, s1))"

subsection \<open>cache.py: STS credentials\<close>

text \<open>\<^verbatim>\<open>obj[key]\<close> for a string key.\<close>

definition subscript :: "json \<Rightarrow> string \<Rightarrow> exn + json" where
  "subscript obj k =
     (case obj of
        JObj kvs \<Rightarrow> (case map_of kvs k of None \<Rightarrow> Inl KeyError | Some v \<Rightarrow> Inr v)
      | _ \<Rightarrow> Inl TypeError)"

text \<open>\<^verbatim>\<open>datetime.datetime.strptime\<close> wants a string.\<close>

definition expiration_timestamp :: "env \<Rightarrow> json \<Rightarrow> exn + real" where
  "expiration_timestamp E v =
     (case v of JStr t \<Rightarrow> strptime_timestamp E t | _ \<Rightarrow> Inl TypeError)"

definition stscreds_path :: "env \<Rightarrow> string \<Rightarrow> path" where
  "stscreds_path E role_arn = path_join (cache_dir E) (''stscreds_'' @ sha256_hexdigest role_arn)"

definition sts_body :: "env \<Rightarrow> real \<Rightarrow> string \<Rightarrow> ret" where
  "sts_body E now txt =
     (case json_load E txt of
        Inl e \<Rightarrow> Inl e
      | Inr sts \<Rightarrow>
          (case subscript sts ''Expiration'' of
             Inl e \<Rightarrow> Inl e
           | Inr x \<Rightarrow>
               (case expiration_timestamp E x of
                  Inl e \<Rightarrow> Inl e
                | Inr expiry \<Rightarrow>
                    if expiry - now > CLOCK_SKEW_ALLOWANCE then Inr (Some (PJson sts))
                    else Inr None)))"

definition read_sts_credentials :: "env \<Rightarrow> bool \<Rightarrow> string \<Rightarrow> fs \<Rightarrow> ret \<times> fs" where
  "read_sts_credentials E safe role_arn =
     requires_safe_cache_dir safe (\<lambda>s.
       let p = stscreds_path E role_arn
       in if \<not> os_path_exists p s then (Inr None, s)
          else (case readable_by_others p True s of
             (Inl e, s1) \<Rightarrow> (Inl e, s1)
           | (Inr True, s1) \<Rightarrow> (Inr None, s1)
           | (Inr False, s1) \<Rightarrow>
               (case open_read p s1 of
                  Inl e \<Rightarrow> (except_os None (Inl e :: exn + unit) None, s1)
                | Inr txt \<Rightarrow>
                    (case sts_body E (clock s1) txt of
                       Inl e \<Rightarrow> (except_os None (Inl e :: exn + unit) None, s1)
                     | Inr v \<Rightarrow> (Inr v, s1)))))"

definition write_sts_credentials :: "env \<Rightarrow> bool \<Rightarrow> string \<Rightarrow> json \<Rightarrow> fs \<Rightarrow> ret \<times> fs" where
  "write_sts_credentials E safe role_arn sts_creds =
     requires_safe_cache_dir safe (\<lambda>s.
       case safe_write (stscreds_path E role_arn)
              (Inr (json_dump E sts_creds @ ''\<newline>'')) s of
         (r, s1) \<Rightarrow> (except_os None r None, s1))"

subsection \<open>cache.py: the id token\<close>

definition id_token_path :: "env \<Rightarrow> string \<Rightarrow> string \<Rightarrow> path" where
  "id_token_path E issuer client_id =
     path_join (cache_dir E) (''id_'' @ sha256_hexdigest issuer @ ''_'' @ client_id)"

text \<open>
  \<^verbatim>\<open>id_token_dict.get('exp') - time.time()\<close>: an integer (or a boolean, which Python counts as
  one) can be subtracted from; \<^verbatim>\<open>None\<close> and everything else raise \<^verbatim>\<open>TypeError\<close>.
\<close>

definition exp_claim :: "(string \<times> json) list \<Rightarrow> exn + real" where
  "exp_claim claims =
     (case map_of claims ''exp'' of
        Some (JInt i) \<Rightarrow> Inr (real_of_int i)
      | Some (JBool b) \<Rightarrow> Inr (if b then 1 else 0)
      | _ \<Rightarrow> Inl TypeError)"

text \<open>
  Lines 204 to 219: decoding under \<^verbatim>\<open>except jose.exceptions.JOSEError\<close>, then the expiry test.
\<close>

definition decode_id_token :: "env \<Rightarrow> real \<Rightarrow> json \<Rightarrow> json \<Rightarrow> string \<Rightarrow> ret" where
  "decode_id_token E now token key client_id =
     (case subscript token ''id_token'' of
        Inl e \<Rightarrow> (if e = JOSEError then Inr None else Inl e)
      | Inr t \<Rightarrow>
          (case jwt_decode E t key client_id of
             Inl e \<Rightarrow> (if e = JOSEError then Inr None else Inl e)
           | Inr id_token_dict \<Rightarrow>
               (case exp_claim id_token_dict of
                  Inl e \<Rightarrow> Inl e
                | Inr expiry \<Rightarrow>
                    if expiry - now > CLOCK_SKEW_ALLOWANCE then Inr (Some (PJson token))
                    else Inr None)))"

definition read_id_token ::
  "env \<Rightarrow> bool \<Rightarrow> string option \<Rightarrow> string option \<Rightarrow> json \<Rightarrow> fs \<Rightarrow> ret \<times> fs" where
  "read_id_token E safe issuer client_id key =
     requires_safe_cache_dir safe (\<lambda>s.
       case (issuer, client_id) of
         (Some iss, Some cid) \<Rightarrow>
           (let p = id_token_path E iss cid
            in if \<not> os_path_exists p s then (Inr None, s)
               else (case readable_by_others p True s of
                  (Inl e, s1) \<Rightarrow> (Inl e, s1)
                | (Inr True, s1) \<Rightarrow> (Inr None, s1)
                | (Inr False, s1) \<Rightarrow>
                    (case readable_by_others p True s1 of
                       (Inl e, s2) \<Rightarrow> (Inl e, s2)
                     | (Inr True, s2) \<Rightarrow> (Inr None, s2)
                     | (Inr False, s2) \<Rightarrow>
                         (case open_read p s2 of
                            Inl e \<Rightarrow> (except_os None (Inl e :: exn + unit) None, s2)
                          | Inr txt \<Rightarrow>
                              (case json_load E txt of
                                 Inl e \<Rightarrow> (except_os None (Inl e :: exn + unit) None, s2)
                               | Inr token \<Rightarrow>
                                   (decode_id_token E (clock s2) token key cid, s2))))))
       | _ \<Rightarrow> (Inr None, s))"

text \<open>
  A dictionary is dumped as JSON, a string is written as it is, and \<^verbatim>\<open>f.write\<close> of anything
  else raises \<^verbatim>\<open>TypeError\<close> (after the file was opened).
\<close>

definition write_id_token ::
  "env \<Rightarrow> bool \<Rightarrow> string option \<Rightarrow> string option \<Rightarrow> json \<Rightarrow> fs \<Rightarrow> ret \<times> fs" where
  "write_id_token E safe issuer client_id token =
     requires_safe_cache_dir safe (\<lambda>s.
       case (issuer, client_id) of
         (Some iss, Some cid) \<Rightarrow>
           (case safe_write (id_token_path E iss cid)
                   (case token of
                      JObj _ \<Rightarrow> Inr (json_dump E token @ ''\<newline>'')
                    | JStr t \<Rightarrow> Inr t
                    | _ \<Rightarrow> Inl TypeError) s of
              (r, s1) \<Rightarrow> (except_os None r None, s1))
       | _ \<Rightarrow> (Inr None, s))"

subsection \<open>cache.py: the shared credentials file\<close>

text \<open>
  The \<^verbatim>\<open>ConfigParser\<close> methods the source calls, as Python 3 defines them. \<open>optionxform\<close>
  lowers an option name. \<open>add_section\<close> refuses the name of the default section and a
  section that exists. \<open>config_set\<close> checks a non-empty value, puts an option of the
  section \<^verbatim>\<open>''\<close> or \<^verbatim>\<open>'DEFAULT'\<close> into the defaults and raises \<^verbatim>\<open>NoSectionError\<close> for a
  section that is not there.
\<close>

definition lower_char :: "char \<Rightarrow> char" where
  "lower_char c =
     (if CHR ''A'' \<le> c \<and> c \<le> CHR ''Z'' then char_of (of_char c + (32 :: nat)) else c)"

definition optionxform :: "string \<Rightarrow> string" where
  "optionxform k = map lower_char k"

definition empty_config :: config where
  "empty_config = \<lparr>defaults = [], sections = []\<rparr>"

definition has_section :: "config \<Rightarrow> string \<Rightarrow> bool" where
  "has_section c sec = (sec \<in> set (map fst (sections c)))"

definition add_section :: "config \<Rightarrow> string \<Rightarrow> exn + config" where
  "add_section c sec =
     (if sec = ''DEFAULT'' then Inl ValueError
      else if has_section c sec then Inl ConfigParserError
      else Inr (c\<lparr>sections := sections c @ [(sec, [])]\<rparr>))"

definition config_set :: "env \<Rightarrow> config \<Rightarrow> string \<Rightarrow> string \<Rightarrow> string \<Rightarrow> exn + config" where
  "config_set E c sec option val =
     (case (if val = [] then Inr val else before_set E val) of
        Inl e \<Rightarrow> Inl e
      | Inr v \<Rightarrow>
          if sec = [] \<or> sec = ''DEFAULT''
          then Inr (c\<lparr>defaults := AList.update (optionxform option) v (defaults c)\<rparr>)
          else if has_section c sec
          then Inr (c\<lparr>sections :=
                 AList.map_entry sec (AList.update (optionxform option) v) (sections c)\<rparr>)
          else Inl ConfigParserError)"

text \<open>\<^verbatim>\<open>ConfigParser.write\<close>: the text it sends to the file.\<close>

definition write_section :: "string \<Rightarrow> (string \<times> string) list \<Rightarrow> string" where
  "write_section name items =
     ''['' @ name @ '']\<newline>''
     @ concat (map (\<lambda>(k, v). k @ '' = ''
          @ concat (map (\<lambda>c. if c = CHR 0x0A then [CHR 0x0A, CHR 0x09] else [c]) v)
          @ ''\<newline>'') items)
     @ ''\<newline>''"

definition config_write :: "config \<Rightarrow> string" where
  "config_write c =
     (if defaults c \<noteq> [] then write_section ''DEFAULT'' (defaults c) else [])
     @ concat (map (\<lambda>(name, items). write_section name items) (sections c))"

definition credentials_path :: "env \<Rightarrow> path" where
  "credentials_path E = path_join (DOT_DIR E) ''credentials''"

definition read_aws_shared_credentials :: "env \<Rightarrow> bool \<Rightarrow> fs \<Rightarrow> ret \<times> fs" where
  "read_aws_shared_credentials E safe =
     requires_safe_cache_dir safe (\<lambda>s.
       let p = credentials_path E; config = Some (PConfig empty_config)
       in if \<not> os_path_exists p s then (Inr config, s)
          else (case readable_by_others p True s of
             (Inl e, s1) \<Rightarrow> (Inl e, s1)
           | (Inr True, s1) \<Rightarrow> (Inr config, s1)
           | (Inr False, s1) \<Rightarrow>
               (case open_read p s1 of
                  Inl e \<Rightarrow> (except_os config (Inl e :: exn + unit) config, s1)
                | Inr txt \<Rightarrow>
                    (case read_file E txt of
                       Inl e \<Rightarrow> (except_os config (Inl e :: exn + unit) config, s1)
                     | Inr c \<Rightarrow> (Inr (Some (PConfig c)), s1)))))"

text \<open>The inner loop, lines 124 and 125.\<close>

fun set_items :: "env \<Rightarrow> config \<Rightarrow> string \<Rightarrow> (string \<times> string) list \<Rightarrow> exn + config" where
  "set_items E c sec [] = Inr c"
| "set_items E c sec ((k, v) # kvs) =
     (case config_set E c sec k v of Inl e \<Rightarrow> Inl e | Inr c' \<Rightarrow> set_items E c' sec kvs)"

text \<open>The outer loop, lines 118 to 125. The new credentials are a dictionary of dictionaries.\<close>

type_synonym credentials = "(string \<times> (string \<times> string) list) list"

fun add_credentials :: "env \<Rightarrow> config \<Rightarrow> credentials \<Rightarrow> exn + config" where
  "add_credentials E c [] = Inr c"
| "add_credentials E c ((sec, items) # rest) =
     (case (if \<not> has_section c sec then add_section c sec else Inr c) of
        Inl e \<Rightarrow> Inl e
      | Inr c1 \<Rightarrow>
          (case set_items E c1 sec items of
             Inl e \<Rightarrow> Inl e
           | Inr c2 \<Rightarrow> add_credentials E c2 rest))"

text \<open>Lines 127 to 130: the sections in the order of their names.\<close>

definition order_sections :: "config \<Rightarrow> config" where
  "order_sections c = c\<lparr>sections := sort_key fst (sections c)\<rparr>"

definition write_aws_shared_credentials :: "env \<Rightarrow> bool \<Rightarrow> credentials \<Rightarrow> fs \<Rightarrow> ret \<times> fs" where
  "write_aws_shared_credentials E safe credentials =
     requires_safe_cache_dir safe (\<lambda>s.
       let p = credentials_path E
       in case read_aws_shared_credentials E safe s of
            (Inl e, s1) \<Rightarrow> (Inl e, s1)
          | (Inr (Some (PConfig config)), s1) \<Rightarrow>
              (case add_credentials E config credentials of
                 Inl e \<Rightarrow> (Inl e, s1)
               | Inr c \<Rightarrow>
                   (case safe_write p (Inr (config_write (order_sections c))) s1 of
                      (r, s2) \<Rightarrow> (except_os None r (Some (PPath p)), s2)))
          | (Inr _, s1) \<Rightarrow> (Inl AttributeError, s1))"

subsection \<open>cache.py: the flag \<open>safe\<close>\<close>

definition verify_dir_permissions :: "path \<Rightarrow> fs \<Rightarrow> bool \<times> fs" where
  "verify_dir_permissions p s =
     (case files s p of
        Some st \<Rightarrow>
          (st_mode st AND S_IRWXU = 448 \<and> st_mode st AND S_IRWXG = 0
             \<and> st_mode st AND S_IRWXO = 0, s)
      | None \<Rightarrow>
          (case os_mkdir p s of
             Inl e \<Rightarrow> (False, s)
           | Inr s1 \<Rightarrow> fix_permissions p 0x1C0 s1))"

text \<open>
  Line 310, run when the module is imported:
  \<^verbatim>\<open>safe = verify_dir_permissions(DOT_DIR) and verify_dir_permissions(cache_dir)\<close>.
\<close>

definition module_safe :: "env \<Rightarrow> fs \<Rightarrow> bool \<times> fs" where
  "module_safe E s =
     (case verify_dir_permissions (DOT_DIR E) s of
        (ok, s1) \<Rightarrow> if ok then verify_dir_permissions (cache_dir E) s1 else (False, s1))"

subsection \<open>An instance of the library interface\<close>

text \<open>
  The theorems below hold for every \<open>env\<close>. To run the operations on concrete files, the
  interface is instantiated here with small implementations of the library functions:
  a JSON writer and reader for the documents of type \<open>json\<close>, the fixed time format in the
  two-digit form with the local time zone UTC, an INI reader that takes the file line by line
  (continuation lines are not joined), and a stand-in for the token verifier, in which a
  token is the JSON text of its claims, a dot and a signature, and the signature is good when
  it is the key.
\<close>

function dec_digits :: "int \<Rightarrow> string" where
  "dec_digits n =
     (if n < 10 then [''0123456789'' ! nat n]
      else dec_digits (n div 10) @ [''0123456789'' ! nat (n mod 10)])"
  by pat_completeness auto
termination
  by (relation "measure nat") auto

definition str_int :: "int \<Rightarrow> string" where
  "str_int i = (if i < 0 then ''-'' @ dec_digits (- i) else dec_digits i)"

definition hex_nibble :: "nat \<Rightarrow> char" where
  "hex_nibble n = ''0123456789abcdef'' ! (n mod 16)"

definition json_escape_char :: "char \<Rightarrow> string" where
  "json_escape_char c =
     (if c = CHR 0x22 then [CHR 0x5C, CHR 0x22]
      else if c = CHR 0x5C then [CHR 0x5C, CHR 0x5C]
      else if c = CHR 0x0A then [CHR 0x5C, CHR ''n'']
      else if c = CHR 0x0D then [CHR 0x5C, CHR ''r'']
      else if c = CHR 0x09 then [CHR 0x5C, CHR ''t'']
      else if c = CHR 0x08 then [CHR 0x5C, CHR ''b'']
      else if c = CHR 0x0C then [CHR 0x5C, CHR ''f'']
      else if CHR 0x20 \<le> c \<and> c \<le> CHR 0x7E then [c]
      else [CHR 0x5C, CHR ''u'', CHR ''0'', CHR ''0'',
            hex_nibble (of_char c div 16), hex_nibble (of_char c)])"

definition json_quote :: "string \<Rightarrow> string" where
  "json_quote t = [CHR 0x22] @ concat (map json_escape_char t) @ [CHR 0x22]"

definition join_lines :: "string \<Rightarrow> string list \<Rightarrow> string" where
  "join_lines sep xs = (case xs of [] \<Rightarrow> [] | x # r \<Rightarrow> x @ concat (map (\<lambda>y. sep @ y) r))"

fun dumps_indent :: "nat \<Rightarrow> json \<Rightarrow> string" where
  "dumps_indent n JNull = ''null''"
| "dumps_indent n (JBool b) = (if b then ''true'' else ''false'')"
| "dumps_indent n (JInt i) = str_int i"
| "dumps_indent n (JStr t) = json_quote t"
| "dumps_indent n (JArr xs) =
     (if xs = [] then ''[]''
      else ''['' @ ''\<newline>'' @ replicate (2 * Suc n) CHR '' ''
        @ join_lines ('','' @ ''\<newline>'' @ replicate (2 * Suc n) CHR '' '')
            (map (dumps_indent (Suc n)) xs)
        @ ''\<newline>'' @ replicate (2 * n) CHR '' '' @ '']'')"
| "dumps_indent n (JObj kvs) =
     (if kvs = [] then ''{}''
      else ''{'' @ ''\<newline>'' @ replicate (2 * Suc n) CHR '' ''
        @ join_lines ('','' @ ''\<newline>'' @ replicate (2 * Suc n) CHR '' '')
            (map (\<lambda>kv. json_quote (fst kv) @ '': '' @ dumps_indent (Suc n) (snd kv)) kvs)
        @ ''\<newline>'' @ replicate (2 * n) CHR '' '' @ ''}'')"

definition is_ws :: "char \<Rightarrow> bool" where
  "is_ws c = (c = CHR '' '' \<or> c = CHR 0x0A \<or> c = CHR 0x0D \<or> c = CHR 0x09)"

definition skip_ws :: "string \<Rightarrow> string" where
  "skip_ws = dropWhile is_ws"

definition is_digit :: "char \<Rightarrow> bool" where
  "is_digit c = (CHR ''0'' \<le> c \<and> c \<le> CHR ''9'')"

definition digit_val :: "char \<Rightarrow> int" where
  "digit_val c = int (of_char c) - 48"

definition digits_val :: "string \<Rightarrow> int" where
  "digits_val ds = foldl (\<lambda>a c. 10 * a + digit_val c) 0 ds"

definition hex_val :: "char \<Rightarrow> nat option" where
  "hex_val c =
     (if is_digit c then Some (of_char c - 48)
      else if CHR ''a'' \<le> c \<and> c \<le> CHR ''f'' then Some (of_char c - 87)
      else if CHR ''A'' \<le> c \<and> c \<le> CHR ''F'' then Some (of_char c - 55)
      else None)"

definition simple_escape :: "char \<Rightarrow> char option" where
  "simple_escape e =
     (if e = CHR 0x22 \<or> e = CHR 0x5C \<or> e = CHR ''/'' then Some e
      else if e = CHR ''n'' then Some (CHR 0x0A)
      else if e = CHR ''r'' then Some (CHR 0x0D)
      else if e = CHR ''t'' then Some (CHR 0x09)
      else if e = CHR ''b'' then Some (CHR 0x08)
      else if e = CHR ''f'' then Some (CHR 0x0C)
      else None)"

text \<open>The characters of a string after its opening quote; the first argument bounds the depth.\<close>

fun parse_string :: "nat \<Rightarrow> string \<Rightarrow> (string \<times> string) option" where
  "parse_string 0 cs = None"
| "parse_string (Suc n) [] = None"
| "parse_string (Suc n) (c # cs) =
     (if c = CHR 0x22 then Some ([], cs)
      else if c = CHR 0x5C then
        (case cs of
           [] \<Rightarrow> None
         | e # r \<Rightarrow>
             (case simple_escape e of
                Some x \<Rightarrow> map_option (\<lambda>(t, r'). (x # t, r')) (parse_string n r)
              | None \<Rightarrow>
                  (case (e, r) of
                     (CHR ''u'', CHR ''0'' # CHR ''0'' # h # l # r2) \<Rightarrow>
                       (case (hex_val h, hex_val l) of
                          (Some a, Some b) \<Rightarrow>
                            map_option (\<lambda>(t, r'). (char_of (16 * a + b) # t, r'))
                              (parse_string n r2)
                        | _ \<Rightarrow> None)
                   | _ \<Rightarrow> None)))
      else if c < CHR 0x20 then None
      else map_option (\<lambda>(t, r'). (c # t, r')) (parse_string n cs))"

definition parse_number :: "string \<Rightarrow> (json \<times> string) option" where
  "parse_number cs =
     (let neg = (take 1 cs = ''-'');
          body = (if neg then drop 1 cs else cs);
          ds = takeWhile is_digit body;
          r = dropWhile is_digit body
      in if ds = [] \<or> (length ds > 1 \<and> hd ds = CHR ''0'') then None
         else if r \<noteq> [] \<and> (hd r = CHR ''.'' \<or> hd r = CHR ''e'' \<or> hd r = CHR ''E'') then None
         else Some (JInt (if neg then - digits_val ds else digits_val ds), r))"

fun parse_value :: "nat \<Rightarrow> string \<Rightarrow> (json \<times> string) option"
  and parse_elements :: "nat \<Rightarrow> string \<Rightarrow> (json list \<times> string) option"
  and parse_members :: "nat \<Rightarrow> string \<Rightarrow> ((string \<times> json) list \<times> string) option" where
  "parse_value 0 cs = None"
| "parse_value (Suc n) cs =
     (let t = skip_ws cs
      in if take 4 t = ''null'' then Some (JNull, drop 4 t)
         else if take 4 t = ''true'' then Some (JBool True, drop 4 t)
         else if take 5 t = ''false'' then Some (JBool False, drop 5 t)
         else if take 1 t = [CHR 0x22] then
           map_option (\<lambda>(x, r). (JStr x, r)) (parse_string (length t) (drop 1 t))
         else if take 1 t = ''['' then
           (if take 1 (skip_ws (drop 1 t)) = '']'' then Some (JArr [], drop 1 (skip_ws (drop 1 t)))
            else map_option (\<lambda>(xs, r). (JArr xs, r)) (parse_elements n (drop 1 t)))
         else if take 1 t = ''{'' then
           (if take 1 (skip_ws (drop 1 t)) = ''}'' then Some (JObj [], drop 1 (skip_ws (drop 1 t)))
            else map_option (\<lambda>(kvs, r). (JObj (foldl (\<lambda>d (k, v). AList.update k v d) [] kvs), r))
                   (parse_members n (drop 1 t)))
         else parse_number t)"
| "parse_elements 0 cs = None"
| "parse_elements (Suc n) cs =
     (case parse_value n cs of
        None \<Rightarrow> None
      | Some (v, r) \<Rightarrow>
          (let t = skip_ws r
           in if take 1 t = '','' then
                map_option (\<lambda>(xs, r'). (v # xs, r')) (parse_elements n (drop 1 t))
              else if take 1 t = '']'' then Some ([v], drop 1 t)
              else None))"
| "parse_members 0 cs = None"
| "parse_members (Suc n) cs =
     (let t = skip_ws cs
      in if take 1 t \<noteq> [CHR 0x22] then None
         else (case parse_string (length t) (drop 1 t) of
            None \<Rightarrow> None
          | Some (k, r1) \<Rightarrow>
              (let t1 = skip_ws r1
               in if take 1 t1 \<noteq> '':'' then None
                  else (case parse_value n (drop 1 t1) of
                     None \<Rightarrow> None
                   | Some (v, r2) \<Rightarrow>
                       (let t2 = skip_ws r2
                        in if take 1 t2 = '','' then
                             map_option (\<lambda>(kvs, r'). ((k, v) # kvs, r'))
                               (parse_members n (drop 1 t2))
                           else if take 1 t2 = ''}'' then Some ([(k, v)], drop 1 t2)
                           else None)))))"

definition json_loads :: "string \<Rightarrow> exn + json" where
  "json_loads txt =
     (case parse_value (Suc (length txt)) txt of
        None \<Rightarrow> Inl ValueError
      | Some (v, r) \<Rightarrow> if skip_ws r = [] then Inr v else Inl ValueError)"

definition is_leap :: "int \<Rightarrow> bool" where
  "is_leap y = (y mod 4 = 0 \<and> (y mod 100 \<noteq> 0 \<or> y mod 400 = 0))"

definition days_in_month :: "int \<Rightarrow> int \<Rightarrow> int" where
  "days_in_month y m =
     (if m = 2 then (if is_leap y then 29 else 28)
      else if m = 4 \<or> m = 6 \<or> m = 9 \<or> m = 11 then 30 else 31)"

text \<open>The days from 1970-01-01 to a date of the Gregorian calendar.\<close>

definition days_from_civil :: "int \<Rightarrow> int \<Rightarrow> int \<Rightarrow> int" where
  "days_from_civil y m d =
     (let y' = (if m \<le> 2 then y - 1 else y);
          yoe = y' mod 400;
          doy = (153 * ((m + 9) mod 12) + 2) div 5 + d - 1
      in (y' div 400) * 146097 + yoe * 365 + yoe div 4 - yoe div 100 + doy - 719468)"

definition utc_strptime :: "string \<Rightarrow> exn + real" where
  "utc_strptime t =
     (case t of
        [y1, y2, y3, y4, a, m1, m2, b, d1, d2, c, h1, h2, e, n1, n2, f, s1, s2, z] \<Rightarrow>
          (if list_all is_digit [y1, y2, y3, y4, m1, m2, d1, d2, h1, h2, n1, n2, s1, s2]
              \<and> [a, b, c, e, f, z] = ''--T::Z''
           then (let y = digits_val [y1, y2, y3, y4]; m = digits_val [m1, m2];
                     d = digits_val [d1, d2]; h = digits_val [h1, h2];
                     n = digits_val [n1, n2]; s = digits_val [s1, s2]
                 in if 1 \<le> y \<and> 1 \<le> m \<and> m \<le> 12 \<and> 1 \<le> d \<and> d \<le> days_in_month y m
                       \<and> h \<le> 23 \<and> n \<le> 59 \<and> s \<le> 59
                    then Inr (real_of_int (days_from_civil y m d * 86400 + h * 3600 + n * 60 + s))
                    else Inl ValueError)
           else Inl ValueError)
      | _ \<Rightarrow> Inl ValueError)"

definition is_space :: "char \<Rightarrow> bool" where
  "is_space c = (c = CHR '' '' \<or> (CHR 0x09 \<le> c \<and> c \<le> CHR 0x0D))"

definition strip :: "string \<Rightarrow> string" where
  "strip t = rev (dropWhile is_space (rev (dropWhile is_space t)))"

fun split_lines :: "string \<Rightarrow> string list" where
  "split_lines [] = []"
| "split_lines (c # cs) =
     (if c = CHR 0x0A then [] # split_lines cs
      else (case split_lines cs of [] \<Rightarrow> [[c]] | l # ls \<Rightarrow> (c # l) # ls))"

text \<open>
  One line of an INI file. The second argument is the section the line falls into:
  \<open>None\<close> before the first header, \<open>Some ''DEFAULT''\<close> in the default section.
\<close>

definition ini_line ::
  "string \<Rightarrow> string option \<times> config \<Rightarrow> exn + (string option \<times> config)" where
  "ini_line line st =
     (case st of (cur, c) \<Rightarrow>
       (let v = strip line;
            close = dropWhile (\<lambda>x. x \<noteq> CHR '']'') (rev (drop 1 v))
        in if v = [] \<or> hd v = CHR ''#'' \<or> hd v = CHR '';'' then Inr st
           else if hd v = CHR ''['' \<and> length close > 1 then
             (let name = rev (tl close)
              in if name = ''DEFAULT'' then Inr (Some name, c)
                 else if has_section c name then Inl ConfigParserError
                 else Inr (Some name, c\<lparr>sections := sections c @ [(name, [])]\<rparr>))
           else (case cur of
              None \<Rightarrow> Inl ConfigParserError
            | Some sec \<Rightarrow>
                (let k = optionxform (strip (takeWhile (\<lambda>x. x \<noteq> CHR ''='' \<and> x \<noteq> CHR '':'') v));
                     r = dropWhile (\<lambda>x. x \<noteq> CHR ''='' \<and> x \<noteq> CHR '':'') v
                 in if r = [] \<or> k = [] then Inl ConfigParserError
                    else if sec = ''DEFAULT'' then
                      (if map_of (defaults c) k \<noteq> None then Inl ConfigParserError
                       else Inr (cur, c\<lparr>defaults := defaults c @ [(k, strip (tl r))]\<rparr>))
                    else (case map_of (sections c) sec of
                       None \<Rightarrow> Inl ConfigParserError
                     | Some items \<Rightarrow>
                         if map_of items k \<noteq> None then Inl ConfigParserError
                         else Inr (cur, c\<lparr>sections := AList.update sec
                                (items @ [(k, strip (tl r))]) (sections c)\<rparr>))))))"

fun ini_lines :: "string list \<Rightarrow> string option \<times> config \<Rightarrow> exn + config" where
  "ini_lines [] st = Inr (snd st)"
| "ini_lines (l # ls) st =
     (case ini_line l st of Inl e \<Rightarrow> Inl e | Inr st' \<Rightarrow> ini_lines ls st')"

definition ini_read :: "string \<Rightarrow> exn + config" where
  "ini_read txt = ini_lines (split_lines txt) (None, empty_config)"

text \<open>
  The check of \<^verbatim>\<open>BasicInterpolation.before_set\<close>: without the pairs \<^verbatim>\<open>%%\<close> and the
  references \<^verbatim>\<open>%(name)s\<close> no percent sign may be left.
\<close>

fun drop_percent_pairs :: "string \<Rightarrow> string" where
  "drop_percent_pairs (a # b # r) =
     (if a = CHR ''%'' \<and> b = CHR ''%'' then drop_percent_pairs r
      else a # drop_percent_pairs (b # r))"
| "drop_percent_pairs r = r"

fun drop_references :: "nat \<Rightarrow> string \<Rightarrow> string" where
  "drop_references 0 r = r"
| "drop_references (Suc n) [] = []"
| "drop_references (Suc n) (a # r) =
     (let name = takeWhile (\<lambda>x. x \<noteq> CHR '')'') (drop 1 r);
          rest = dropWhile (\<lambda>x. x \<noteq> CHR '')'') (drop 1 r)
      in if a = CHR ''%'' \<and> take 1 r = ''('' \<and> name \<noteq> [] \<and> take 2 rest = '')s''
         then drop_references n (drop 2 rest)
         else a # drop_references n r)"

definition interpolation_before_set :: "string \<Rightarrow> exn + string" where
  "interpolation_before_set v =
     (if CHR ''%'' \<in> set (drop_references (length v) (drop_percent_pairs v))
      then Inl ValueError else Inr v)"

definition demo_jwt_decode :: "json \<Rightarrow> json \<Rightarrow> string \<Rightarrow> exn + (string \<times> json) list" where
  "demo_jwt_decode token key audience =
     (case token of
        JStr t \<Rightarrow>
          (let signature = rev (takeWhile (\<lambda>x. x \<noteq> CHR ''.'') (rev t));
               payload = take (length t - length signature - 1) t
           in if CHR ''.'' \<notin> set t \<or> key \<noteq> JStr signature then Inl JOSEError
              else (case json_loads payload of
                 Inr (JObj claims) \<Rightarrow>
                   if map_of claims ''aud'' = Some (JStr audience) then Inr claims
                   else Inl JOSEError
               | _ \<Rightarrow> Inl JOSEError))
      | _ \<Rightarrow> Inl AttributeError)"

definition py_env :: env where
  "py_env =
     \<lparr>DOT_DIR = ''/home/user/.federated_aws_cli'',
      json_load = json_loads,
      json_dump = dumps_indent 0,
      strptime_timestamp = utc_strptime,
      jwt_decode = demo_jwt_decode,
      read_file = ini_read,
      before_set = interpolation_before_set\<rparr>"

subsection \<open>The process: the flag and the calls of a run\<close>

text \<open>
  The state of a running process is the module's flag \<open>safe\<close>, set once when \<^verbatim>\<open>cache.py\<close> is
  imported, and the disk. No function of \<^verbatim>\<open>cache.py\<close> assigns the flag.
\<close>

record process =
  safe_flag :: bool
  disk :: fs

definition start :: "env \<Rightarrow> fs \<Rightarrow> process" where
  "start E s = (case module_safe E s of (ok, s1) \<Rightarrow> \<lparr>safe_flag = ok, disk = s1\<rparr>)"

text \<open>
  Modelled from the spec: \<^verbatim>\<open>disable_caching\<close>, which \<^verbatim>\<open>cli.py\<close> imports from
  \<^verbatim>\<open>mozilla_aws_cli/cache.py\<close>, a file that is not among the sources. The specification calls it
  a process-wide switch after which all read and write calls behave as misses and no-ops;
  the switch that the decorator of \<^verbatim>\<open>cache.py\<close> reads is the flag.
\<close>

definition disable_caching :: "process \<Rightarrow> process" where
  "disable_caching P = P\<lparr>safe_flag := False\<rparr>"

text \<open>\<^verbatim>\<open>cli.py\<close>, lines 119 to 121: the callback of the option \<^verbatim>\<open>--no-cache\<close>.\<close>

definition validate_disable_caching :: "bool \<Rightarrow> process \<Rightarrow> process" where
  "validate_disable_caching disabled P = (if disabled then disable_caching P else P)"

datatype call =
  ReadAwsSharedCredentials
| WriteAwsSharedCredentials credentials
| ReadGroupRoleMap string
| WriteGroupRoleMap string json
| ReadIdToken "string option" "string option" json
| WriteIdToken "string option" "string option" json
| ReadStsCredentials string
| WriteStsCredentials string json

fun call_fs :: "env \<Rightarrow> bool \<Rightarrow> call \<Rightarrow> fs \<Rightarrow> ret \<times> fs" where
  "call_fs E safe ReadAwsSharedCredentials = read_aws_shared_credentials E safe"
| "call_fs E safe (WriteAwsSharedCredentials credentials) =
     write_aws_shared_credentials E safe credentials"
| "call_fs E safe (ReadGroupRoleMap url) = read_group_role_map E safe url"
| "call_fs E safe (WriteGroupRoleMap url role_map) = write_group_role_map E safe url role_map"
| "call_fs E safe (ReadIdToken issuer client_id key) = read_id_token E safe issuer client_id key"
| "call_fs E safe (WriteIdToken issuer client_id token) =
     write_id_token E safe issuer client_id token"
| "call_fs E safe (ReadStsCredentials role_arn) = read_sts_credentials E safe role_arn"
| "call_fs E safe (WriteStsCredentials role_arn sts_creds) =
     write_sts_credentials E safe role_arn sts_creds"

definition perform :: "env \<Rightarrow> call \<Rightarrow> process \<Rightarrow> ret \<times> process" where
  "perform E c P = (case call_fs E (safe_flag P) c (disk P) of (r, s) \<Rightarrow> (r, P\<lparr>disk := s\<rparr>))"

text \<open>
  A run is a list of calls, each with what the rest of the world did to the disk (and the
  clock) since the call before.
\<close>

fun run :: "env \<Rightarrow> ((fs \<Rightarrow> fs) \<times> call) list \<Rightarrow> process \<Rightarrow> ret list \<times> process" where
  "run E [] P = ([], P)"
| "run E ((world, c) # cs) P =
     (case perform E c (P\<lparr>disk := world (disk P)\<rparr>) of
        (r, P1) \<Rightarrow> (case run E cs P1 of (rs, P2) \<Rightarrow> (r # rs, P2)))"

subsection \<open>Concrete disks\<close>

text \<open>A disk with the given nodes on which no system call fails; the umask is 022.\<close>

definition fs_of :: "(path \<times> node) list \<Rightarrow> real \<Rightarrow> fs" where
  "fs_of nodes now =
     \<lparr>files = map_of nodes, clock = now, umask = 0x12,
      chmod_fails = (\<lambda>p. False), mkdir_fails = (\<lambda>p. False),
      open_read_fails = (\<lambda>p. False), open_write_fails = (\<lambda>p. False),
      write_limit = (\<lambda>p. None)\<rparr>"

definition dir_node :: "w32 \<Rightarrow> node" where
  "dir_node perms = \<lparr>st_mode = 0x4000 OR perms, st_mtime = 0, data = []\<rparr>"

definition file_node :: "w32 \<Rightarrow> real \<Rightarrow> string \<Rightarrow> node" where
  "file_node perms mtime txt = \<lparr>st_mode = 0x8000 OR perms, st_mtime = mtime, data = txt\<rparr>"

text \<open>A configuration root that group and others can enter (mode 0755).\<close>

definition permissive_root :: fs where
  "permissive_root = fs_of [(''/home/user/.federated_aws_cli'', dir_node 0x1ED)] 0"

subsection \<open>Vocabulary for the statements\<close>

text \<open>
  A mode is private when it grants nothing to group and others. \<open>repaired p s\<close> is the disk
  after the permission check of \<open>p\<close>, which may have changed the mode of \<open>p\<close> to 0600.
  \<open>holds s p txt\<close>: the file \<open>p\<close> exists with content \<open>txt\<close>, it is private or can be made
  private, and it can be opened for reading. \<open>modified s p\<close> is its modification time.
\<close>

definition private_mode :: "w32 \<Rightarrow> bool" where
  "private_mode m = (m AND S_IRWXG = 0 \<and> m AND S_IRWXO = 0)"

definition repaired :: "path \<Rightarrow> fs \<Rightarrow> fs" where
  "repaired p s = snd (readable_by_others p True s)"

definition holds :: "fs \<Rightarrow> path \<Rightarrow> string \<Rightarrow> bool" where
  "holds s p txt =
     (case files s p of
        None \<Rightarrow> False
      | Some n \<Rightarrow>
          data n = txt \<and> (private_mode (st_mode n) \<or> \<not> chmod_fails s p)
            \<and> \<not> open_read_fails s p)"

definition modified :: "fs \<Rightarrow> path \<Rightarrow> real option" where
  "modified s p = map_option st_mtime (files s p)"

definition content :: "fs \<Rightarrow> path \<Rightarrow> string option" where
  "content s p = map_option data (files s p)"

text \<open>
  \<open>usable s p\<close>: every system call the cache makes on \<open>p\<close> succeeds (opening for writing,
  writing, opening for reading, and the change of mode where the file is there and not
  private).
\<close>

definition usable :: "fs \<Rightarrow> path \<Rightarrow> bool" where
  "usable s p =
     (\<not> open_write_fails s p \<and> write_limit s p = None \<and> \<not> open_read_fails s p
        \<and> (case files s p of
              None \<Rightarrow> True
            | Some n \<Rightarrow> private_mode (st_mode n) \<or> \<not> chmod_fails s p))"

text \<open>
  For the shared credentials file: \<open>existing_config\<close> is what line 115 of
  \<open>write_aws_shared_credentials\<close> gets from \<open>read_aws_shared_credentials\<close>, and
  \<open>merged_config\<close> is the configuration after lines 114 to 130, which line 134 writes.
  \<open>names credentials sec k\<close>: the new credentials set the option \<open>k\<close> of section \<open>sec\<close>.
\<close>

definition existing_config :: "env \<Rightarrow> fs \<Rightarrow> exn + config" where
  "existing_config E s =
     (case fst (read_aws_shared_credentials E True s) of
        Inl e \<Rightarrow> Inl e
      | Inr (Some (PConfig c)) \<Rightarrow> Inr c
      | Inr _ \<Rightarrow> Inl AttributeError)"

definition merged_config :: "env \<Rightarrow> credentials \<Rightarrow> fs \<Rightarrow> exn + config" where
  "merged_config E credentials s =
     (case existing_config E s of
        Inl e \<Rightarrow> Inl e
      | Inr c0 \<Rightarrow>
          (case add_credentials E c0 credentials of
             Inl e \<Rightarrow> Inl e
           | Inr c \<Rightarrow> Inr (order_sections c)))"

definition names :: "credentials \<Rightarrow> string \<Rightarrow> string \<Rightarrow> bool" where
  "names credentials sec k =
     list_ex (\<lambda>(sec', items). sec' = sec \<and> list_ex (\<lambda>(k', v). optionxform k' = k) items)
       credentials"

subsection \<open>Configurations as maps\<close>

text \<open>
  The proofs about merging look at a configuration in two ways: its \<open>view\<close>, the maps from
  options to values (of the defaults, and of each section), and its \<open>shape\<close>, the order of
  the sections and of the options in them. \<open>over V W\<close> is the view \<open>V\<close> overwritten by \<open>W\<close>.
  \<open>delta E credentials\<close> is the view of what \<open>add_credentials\<close> sets: \<open>stored E v\<close> is the value
  that \<open>config_set\<close> stores for \<open>v\<close>. In a well-formed configuration no section and no option
  of a section occurs twice, as in the dictionaries of Python.
\<close>

type_synonym view = "(string \<Rightarrow> string option) \<times> (string \<Rightarrow> (string \<Rightarrow> string option) option)"

definition view :: "config \<Rightarrow> view" where
  "view c = (map_of (defaults c), map_option map_of \<circ> map_of (sections c))"


definition over :: "view \<Rightarrow> view \<Rightarrow> view" where
  "over V W =
     (fst V ++ fst W,
      \<lambda>sec. case snd W sec of
               None \<Rightarrow> snd V sec
             | Some m2 \<Rightarrow> (case snd V sec of None \<Rightarrow> Some m2 | Some m1 \<Rightarrow> Some (m1 ++ m2)))"

definition no_view :: view where
  "no_view = (Map.empty, Map.empty)"

definition stored :: "env \<Rightarrow> string \<Rightarrow> string" where
  "stored E v = (if v = [] then v else (case before_set E v of Inl e \<Rightarrow> v | Inr w \<Rightarrow> w))"

definition delta_set :: "env \<Rightarrow> string \<Rightarrow> string \<Rightarrow> string \<Rightarrow> view" where
  "delta_set E sec k v =
     (if sec = [] \<or> sec = ''DEFAULT'' then ([optionxform k \<mapsto> stored E v], Map.empty)
      else (Map.empty, [sec \<mapsto> [optionxform k \<mapsto> stored E v]]))"

fun delta_items :: "env \<Rightarrow> string \<Rightarrow> (string \<times> string) list \<Rightarrow> view" where
  "delta_items E sec [] = no_view"
| "delta_items E sec ((k, v) # kvs) = over (delta_set E sec k v) (delta_items E sec kvs)"

fun delta :: "env \<Rightarrow> credentials \<Rightarrow> view" where
  "delta E [] = no_view"
| "delta E ((sec, items) # rest) =
     over (over (Map.empty, [sec \<mapsto> Map.empty]) (delta_items E sec items)) (delta E rest)"


text \<open>\<open>untouched W sec k\<close>: the view \<open>W\<close> sets nothing for the option \<open>k\<close> of section \<open>sec\<close>.\<close>

definition untouched :: "view \<Rightarrow> string \<Rightarrow> string \<Rightarrow> bool" where
  "untouched W sec k = (case snd W sec of None \<Rightarrow> True | Some m \<Rightarrow> m k = None)"


subsection \<open>Concrete cache entries\<close>

definition example_arn :: string where
  "example_arn = ''arn:aws:iam::111122223333:role/Example''"

definition example_creds :: json where
  "example_creds =
     JObj [(''AccessKeyId'', JStr ''ASIAEXAMPLEKEYID''),
           (''SecretAccessKey'', JStr ''wJalrXUtnFEMI/K7MDENG/bPxRfiCYEXAMPLEKEY''),
           (''SessionToken'', JStr ''AQoDYXdzEJr//example+token=''),
           (''Expiration'', JStr ''2099-01-01T00:00:00Z'')]"

definition example_issuer :: string where
  "example_issuer = ''https://auth.example.com/''"

definition example_client :: string where
  "example_client = ''client-1''"

definition example_claims :: "(string \<times> json) list" where
  "example_claims = [(''aud'', JStr ''client-1''), (''exp'', JInt 4070908800)]"

text \<open>A token for the stand-in verifier, signed with the key \<^verbatim>\<open>secret\<close>.\<close>

definition example_token :: json where
  "example_token = JObj [(''id_token'', JStr (dumps_indent 0 (JObj example_claims) @ ''.secret''))]"

definition example_url :: string where
  "example_url = ''https://roles.example.com/roles''"

definition example_role_map :: json where
  "example_role_map =
     JObj [(''roles'', JArr [JStr ''arn:aws:iam::111122223333:role/Example'']),
           (''aliases'', JObj [(''111122223333'', JArr [JStr ''example-account''])])]"

definition example_disk :: fs where
  "example_disk =
     fs_of [(stscreds_path py_env example_arn,
               file_node 0x180 0 (dumps_indent 0 example_creds @ ''\<newline>'')),
            (id_token_path py_env example_issuer example_client,
               file_node 0x180 0 (dumps_indent 0 example_token @ ''\<newline>'')),
            (rolemap_path py_env example_url,
               file_node 0x180 0 (dumps_indent 0 example_role_map @ ''\<newline>''))] 0"

text \<open>The disk after the role map was written at time 0 into an empty cache.\<close>

definition role_map_disk :: fs where
  "role_map_disk = snd (write_group_role_map py_env True example_url example_role_map (fs_of [] 0))"



text \<open>
  A shared credentials file with one profile and the new credentials of a login. On
  \<open>full_disk\<close> no byte can be written to the file any more. On \<open>foreign_disk\<close> the file
  has mode 0666 and its mode cannot be changed (it belongs to another user).
\<close>

definition shared_text :: string where
  "shared_text =
     ''[work]\<newline>aws_access_key_id = AKIAOLDKEY\<newline>aws_secret_access_key = oldsecret\<newline>\<newline>''"

definition new_credentials :: credentials where
  "new_credentials =
     [(''default'', [(''aws_access_key_id'', ''ASIANEWKEY''),
                     (''aws_secret_access_key'', ''newsecret''),
                     (''aws_session_token'', ''newtoken'')])]"

definition shared_disk :: fs where
  "shared_disk = fs_of [(credentials_path py_env, file_node 0x180 0 shared_text)] 100"

definition full_disk :: fs where
  "full_disk = shared_disk\<lparr>write_limit := (\<lambda>p. Some 0)\<rparr>"

definition foreign_disk :: fs where
  "foreign_disk =
     (fs_of [(credentials_path py_env, file_node 0x1B6 0 shared_text)] 100)
       \<lparr>chmod_fails := (\<lambda>p. True)\<rparr>"

definition work_profile :: config where
  "work_profile =
     \<lparr>defaults = [],
      sections = [(''work'', [(''aws_access_key_id'', ''AKIAOLDKEY''),
                              (''aws_secret_access_key'', ''oldsecret'')])]\<rparr>"

definition default_profile :: config where
  "default_profile =
     \<lparr>defaults = [],
      sections = [(''default'', [(''aws_access_key_id'', ''ASIANEWKEY''),
                                 (''aws_secret_access_key'', ''newsecret''),
                                 (''aws_session_token'', ''newtoken'')])]\<rparr>"

definition merged_profiles :: config where
  "merged_profiles =
     \<lparr>defaults = [],
      sections = [(''default'', [(''aws_access_key_id'', ''ASIANEWKEY''),
                                 (''aws_secret_access_key'', ''newsecret''),
                                 (''aws_session_token'', ''newtoken'')]),
                  (''work'', [(''aws_access_key_id'', ''AKIAOLDKEY''),
                              (''aws_secret_access_key'', ''oldsecret'')])]\<rparr>"

text \<open>New credentials with an option name that holds an equals sign.\<close>

definition odd_credentials :: credentials where
  "odd_credentials = [(''default'', [(''a=b'', ''v'')])]"

definition odd_once :: config where
  "odd_once = \<lparr>defaults = [], sections = [(''default'', [(''a=b'', ''v'')])]\<rparr>"

definition odd_read_back :: config where
  "odd_read_back = \<lparr>defaults = [], sections = [(''default'', [(''a'', ''b = v'')])]\<rparr>"

definition odd_twice :: config where
  "odd_twice =
     \<lparr>defaults = [], sections = [(''default'', [(''a'', ''b = v''), (''a=b'', ''v'')])]\<rparr>"

section \<open>Properties\<close>

lemmas operation_defs =
  read_aws_shared_credentials_def read_group_role_map_def read_id_token_def
  read_sts_credentials_def write_aws_shared_credentials_def write_group_role_map_def
  write_id_token_def write_sts_credentials_def

subsection \<open>The guard on the cache root\<close>

lemma unsafe_call: "call_fs E False c s = (Inr None, s)"
  by (cases c) (simp_all add: operation_defs requires_safe_cache_dir_def)

text \<open>
  Claim C1. When the flag \<open>safe\<close> computed at import from the permissions of \<open>DOT_DIR\<close> and
  of its cache directory is false, each of the four read operations returns \<^verbatim>\<open>None\<close> and
  each of the four write operations returns \<^verbatim>\<open>None\<close> and leaves the disk as it was, for all
  arguments and every disk; none of them raises.
\<close>

theorem unsafe_cache_root_disables_cache:
  assumes "\<not> fst (module_safe E s0)"
  shows "read_aws_shared_credentials E (fst (module_safe E s0)) s = (Inr None, s)
       \<and> read_group_role_map E (fst (module_safe E s0)) url s = (Inr None, s)
       \<and> read_id_token E (fst (module_safe E s0)) issuer client_id key s = (Inr None, s)
       \<and> read_sts_credentials E (fst (module_safe E s0)) role_arn s = (Inr None, s)
       \<and> write_aws_shared_credentials E (fst (module_safe E s0)) credentials s = (Inr None, s)
       \<and> write_group_role_map E (fst (module_safe E s0)) url role_map s = (Inr None, s)
       \<and> write_id_token E (fst (module_safe E s0)) issuer client_id token s = (Inr None, s)
       \<and> write_sts_credentials E (fst (module_safe E s0)) role_arn sts_creds s = (Inr None, s)"
  using assms by (simp add: operation_defs requires_safe_cache_dir_def)

lemma permissive_root_unsafe: "\<not> fst (module_safe py_env permissive_root)"
  by (simp add: module_safe_def verify_dir_permissions_def py_env_def fs_of_def dir_node_def
      permissive_root_def S_IRWXU_def S_IRWXG_def S_IRWXO_def)

theorem unsafe_cache_root_disables_cache_witness:
  "\<not> fst (module_safe py_env permissive_root)
   \<and> read_aws_shared_credentials py_env (fst (module_safe py_env permissive_root)) permissive_root
       = (Inr None, permissive_root)
   \<and> read_group_role_map py_env (fst (module_safe py_env permissive_root)) ''https://roles.example.com/'' permissive_root
       = (Inr None, permissive_root)
   \<and> read_id_token py_env (fst (module_safe py_env permissive_root)) (Some ''https://issuer.example.com/'') (Some ''client'') JNull permissive_root
       = (Inr None, permissive_root)
   \<and> read_sts_credentials py_env (fst (module_safe py_env permissive_root)) ''arn:aws:iam::111122223333:role/Example'' permissive_root
       = (Inr None, permissive_root)
   \<and> write_aws_shared_credentials py_env (fst (module_safe py_env permissive_root)) [(''default'', [(''aws_access_key_id'', ''ASIAEXAMPLE'')])] permissive_root
       = (Inr None, permissive_root)
   \<and> write_group_role_map py_env (fst (module_safe py_env permissive_root)) ''https://roles.example.com/'' (JObj []) permissive_root
       = (Inr None, permissive_root)
   \<and> write_id_token py_env (fst (module_safe py_env permissive_root)) (Some ''https://issuer.example.com/'') (Some ''client'') (JObj []) permissive_root
       = (Inr None, permissive_root)
   \<and> write_sts_credentials py_env (fst (module_safe py_env permissive_root)) ''arn:aws:iam::111122223333:role/Example'' (JObj []) permissive_root
       = (Inr None, permissive_root)"
  by (rule conjI [OF permissive_root_unsafe
        unsafe_cache_root_disables_cache [OF permissive_root_unsafe]])

subsection \<open>Reading a file that is there\<close>

lemma chmod_private: "private_mode ((m AND NOT 0xFFF) OR (0x180 AND 0xFFF))"
  unfolding private_mode_def S_IRWXG_def S_IRWXO_def
  by (simp add: bit.conj_disj_distrib2 and.assoc)

lemma rbo_holds:
  assumes "holds s p txt"
  shows "readable_by_others p True s = (Inr False, repaired p s)"
  using assms
  by (auto simp: holds_def repaired_def readable_by_others_def Let_def os_stat_def fix_permissions_def
      os_chmod_def private_mode_def split: option.splits)

lemma repaired_private:
  "files s p = Some n \<Longrightarrow> private_mode (st_mode n) \<Longrightarrow> repaired p s = s"
  by (simp add: repaired_def readable_by_others_def Let_def os_stat_def private_mode_def)

lemma repaired_node:
  assumes "holds s p txt"
  shows "\<exists>n. files (repaired p s) p = Some n \<and> data n = txt \<and> private_mode (st_mode n)
           \<and> modified s p = Some (st_mtime n)"
  using assms chmod_private
  by (auto simp: holds_def repaired_def readable_by_others_def Let_def os_stat_def fix_permissions_def
      os_chmod_def modified_def private_mode_def split: option.splits)

lemma repaired_fields [simp]:
  "clock (repaired p s) = clock s"
  "open_read_fails (repaired p s) = open_read_fails s"
  "open_write_fails (repaired p s) = open_write_fails s"
  "chmod_fails (repaired p s) = chmod_fails s"
  "write_limit (repaired p s) = write_limit s"
  "umask (repaired p s) = umask s"
  by (auto simp: repaired_def readable_by_others_def Let_def os_stat_def fix_permissions_def
      os_chmod_def split: option.splits sum.splits)

lemma repaired_other: "q \<noteq> p \<Longrightarrow> files (repaired p s) q = files s q"
  by (auto simp: repaired_def readable_by_others_def Let_def os_stat_def fix_permissions_def
      os_chmod_def split: option.splits sum.splits)

lemma repaired_content [simp]: "content (repaired p s) q = content s q"
  by (auto simp: content_def repaired_def readable_by_others_def Let_def os_stat_def fix_permissions_def
      os_chmod_def split: option.splits sum.splits)

lemma repaired_modified [simp]: "modified (repaired p s) q = modified s q"
  by (auto simp: modified_def repaired_def readable_by_others_def Let_def os_stat_def fix_permissions_def
      os_chmod_def split: option.splits sum.splits)

lemma repaired_idem [simp]: "repaired p (repaired p s) = repaired p s"
proof (cases "files s p")
  case None
  then show ?thesis by (simp add: repaired_def readable_by_others_def Let_def os_stat_def)
next
  case (Some n)
  show ?thesis
  proof (cases "private_mode (st_mode n)")
    case True
    then show ?thesis using Some by (simp add: repaired_private)
  next
    case False
    show ?thesis
    proof (cases "chmod_fails s p")
      case True
      then have "repaired p s = s" using Some False
        by (simp add: repaired_def readable_by_others_def Let_def os_stat_def fix_permissions_def
            os_chmod_def private_mode_def)
      then show ?thesis by simp
    next
      case nf: False
      have "\<exists>n'. files (repaired p s) p = Some n' \<and> private_mode (st_mode n')"
        using Some nf False chmod_private
        by (auto simp: repaired_def readable_by_others_def Let_def os_stat_def fix_permissions_def
            os_chmod_def private_mode_def)
      then show ?thesis using repaired_private by blast
    qed
  qed
qed


lemma holds_exists: "holds s p txt \<Longrightarrow> os_path_exists p s"
  by (auto simp: holds_def os_path_exists_def split: option.splits)

lemma holds_open_read:
  assumes "holds s p txt"
  shows "open_read p (repaired p s) = Inr txt"
proof -
  obtain n where "files (repaired p s) p = Some n" "data n = txt"
    using repaired_node [OF assms] by blast
  moreover have "\<not> open_read_fails s p"
    using assms by (auto simp: holds_def split: option.splits)
  ultimately show ?thesis by (simp add: open_read_def)
qed

lemma holds_stat:
  assumes "holds s p txt" "modified s p = Some t0"
  shows "\<exists>n. os_stat p (repaired p s) = Inr n \<and> st_mtime n = t0"
  using repaired_node [OF assms(1)] assms(2) by (auto simp: os_stat_def)

lemma holds_repaired: "holds s p txt \<Longrightarrow> holds (repaired p s) p txt"
  using repaired_node [of s p "txt"] by (auto simp: holds_def split: option.splits)

lemma read_group_role_map_holds:
  assumes "holds s (rolemap_path E url) txt" "modified s (rolemap_path E url) = Some t0"
  shows "read_group_role_map E True url s =
     (if clock s - t0 > GROUP_ROLE_MAP_CACHE_TIME then Inr None
      else (case json_load E txt of
              Inl e \<Rightarrow> (if e = OSError then Inr None else Inl e)
            | Inr v \<Rightarrow> Inr (Some (PJson v))),
      repaired (rolemap_path E url) s)"
proof -
  obtain n where n: "os_stat (rolemap_path E url) (repaired (rolemap_path E url) s) = Inr n"
      "st_mtime n = t0"
    using holds_stat [OF assms] by blast
  show ?thesis
    using holds_exists [OF assms(1)] rbo_holds [OF assms(1)] holds_open_read [OF assms(1)] n
    by (simp add: read_group_role_map_def requires_safe_cache_dir_def except_os_def
        split: sum.splits)
qed


lemma read_id_token_holds:
  assumes "holds s (id_token_path E iss cid) txt"
  shows "read_id_token E True (Some iss) (Some cid) key s =
     (case json_load E txt of
        Inl e \<Rightarrow> (if e = OSError then Inr None else Inl e)
      | Inr token \<Rightarrow> decode_id_token E (clock s) token key cid,
      repaired (id_token_path E iss cid) s)"
  using holds_exists [OF assms] rbo_holds [OF assms] holds_open_read [OF assms]
    rbo_holds [OF holds_repaired [OF assms]]
  by (simp add: read_id_token_def requires_safe_cache_dir_def except_os_def
      split: sum.splits)

lemma rbo_cases:
  assumes "files s p = Some n"
  shows "readable_by_others p True s
           = (Inr (\<not> private_mode (st_mode n) \<and> chmod_fails s p), repaired p s)"
  using assms
  by (auto simp: repaired_def readable_by_others_def Let_def os_stat_def fix_permissions_def
      os_chmod_def private_mode_def)

lemma repaired_missing: "files s p = None \<Longrightarrow> repaired p s = s"
  by (simp add: repaired_def readable_by_others_def os_stat_def)

lemma not_holds_cases:
  assumes "files s p = Some n" "\<not> holds s p (data n)"
  shows "(\<not> private_mode (st_mode n) \<and> chmod_fails s p)
       \<or> ((private_mode (st_mode n) \<or> \<not> chmod_fails s p) \<and> open_read_fails s p)"
  using assms by (auto simp: holds_def)

lemma open_read_fails_repaired:
  "open_read_fails s p \<Longrightarrow> open_read p (repaired p s) = Inl OSError"
  by (simp add: open_read_def split: option.splits)

lemma rbo_after_repair:
  assumes "files s p = Some n" "private_mode (st_mode n) \<or> \<not> chmod_fails s p"
  shows "readable_by_others p True (repaired p s) = (Inr False, repaired p s)"
proof -
  have "\<exists>n'. files (repaired p s) p = Some n' \<and> private_mode (st_mode n')"
    using assms chmod_private
    by (auto simp: repaired_def readable_by_others_def Let_def os_stat_def fix_permissions_def
        os_chmod_def private_mode_def)
  then obtain n' where n': "files (repaired p s) p = Some n'" "private_mode (st_mode n')"
    by blast
  show ?thesis using rbo_cases [OF n'(1)] n'(2) by simp
qed

lemma read_id_token_not_holds:
  assumes "files s (id_token_path E iss cid) = Some n"
    and "\<not> holds s (id_token_path E iss cid) (data n)"
  shows "fst (read_id_token E True (Some iss) (Some cid) key s) = Inr None"
  using not_holds_cases [OF assms]
proof
  assume "\<not> private_mode (st_mode n) \<and> chmod_fails s (id_token_path E iss cid)"
  then show ?thesis
    using assms(1) rbo_cases [OF assms(1)]
    by (simp add: read_id_token_def requires_safe_cache_dir_def os_path_exists_def)
next
  assume h: "(private_mode (st_mode n) \<or> \<not> chmod_fails s (id_token_path E iss cid))
     \<and> open_read_fails s (id_token_path E iss cid)"
  then have b: "\<not> (\<not> private_mode (st_mode n) \<and> chmod_fails s (id_token_path E iss cid))"
    by blast
  show ?thesis
    using assms(1) rbo_cases [OF assms(1)] b rbo_after_repair [OF assms(1)] h
      open_read_fails_repaired [of s "id_token_path E iss cid"]
    by (simp add: read_id_token_def requires_safe_cache_dir_def os_path_exists_def
        except_os_def)
qed

lemma read_id_token_missing:
  "files s (id_token_path E iss cid) = None \<Longrightarrow>
     read_id_token E True (Some iss) (Some cid) key s = (Inr None, s)"
  by (simp add: read_id_token_def requires_safe_cache_dir_def os_path_exists_def)

lemma read_id_token_unsafe: "read_id_token E False issuer client_id key s = (Inr None, s)"
  by (simp add: read_id_token_def requires_safe_cache_dir_def)

lemma run_unsafe:
  "\<not> safe_flag P \<Longrightarrow>
     run E cs P = (map (\<lambda>c. Inr None) cs, P\<lparr>disk := fold fst cs (disk P)\<rparr>)"
proof (induction cs arbitrary: P)
  case Nil
  then show ?case by simp
next
  case (Cons a cs)
  obtain world c where a: "a = (world, c)" by (cases a)
  have "perform E c (P\<lparr>disk := world (disk P)\<rparr>) = (Inr None, P\<lparr>disk := world (disk P)\<rparr>)"
    using Cons.prems by (simp add: perform_def unsafe_call)
  moreover have "\<not> safe_flag (P\<lparr>disk := world (disk P)\<rparr>)"
    using Cons.prems by simp
  ultimately show ?case
    using Cons.IH [of "P\<lparr>disk := world (disk P)\<rparr>"] a by simp
qed

lemma holds_clock [simp]: "holds (s\<lparr>clock := t\<rparr>) p txt = holds s p txt"
  by (simp add: holds_def split: option.splits)

subsection \<open>The example entries\<close>



lemma example_token_text: "json_loads (dumps_indent 0 example_token @ ''\<newline>'') = Inr example_token"
  unfolding example_token_def example_claims_def by code_simp


lemma example_token_forged:
  "demo_jwt_decode (JStr (dumps_indent 0 (JObj example_claims) @ ''.secret'')) (JStr ''another key'') example_client
     = Inl JOSEError"
  unfolding example_claims_def example_client_def by code_simp

lemma example_paths_differ:
  "stscreds_path py_env example_arn \<noteq> id_token_path py_env example_issuer example_client"
  by (simp add: stscreds_path_def id_token_path_def cache_dir_def path_join_def py_env_def)



lemma example_env [simp]:
  "json_load py_env = json_loads" "strptime_timestamp py_env = utc_strptime"
  "jwt_decode py_env = demo_jwt_decode" "json_dump py_env = dumps_indent 0"
  "read_file py_env = ini_read" "before_set py_env = interpolation_before_set"
  by (simp_all add: py_env_def)

subsection \<open>Disabling the cache\<close>

text \<open>
  Claim C10. Once caching is disabled (the callback of \<^verbatim>\<open>--no-cache\<close> with a true flag, which
  calls \<open>disable_caching\<close>), every later call of a cache operation returns \<^verbatim>\<open>None\<close>, whatever
  its arguments and whatever happens to the disk between the calls; no call changes the
  disk, and the flag stays off to the end of the run.
\<close>

theorem disable_caching_is_permanent:
  "run E cs (validate_disable_caching True P)
     = (map (\<lambda>c. Inr None) cs, \<lparr>safe_flag = False, disk = fold fst cs (disk P)\<rparr>)"
  using run_unsafe [of "disable_caching P" E cs]
  by (simp add: validate_disable_caching_def disable_caching_def)

theorem disable_caching_is_permanent_witness:
  "run py_env
     [(\<lambda>s. s, ReadStsCredentials example_arn),
      (\<lambda>s. s\<lparr>clock := 60\<rparr>, WriteStsCredentials example_arn example_creds),
      (\<lambda>s. s, ReadIdToken (Some example_issuer) (Some example_client) (JStr ''secret''))]
     (validate_disable_caching True \<lparr>safe_flag = True, disk = example_disk\<rparr>)
   = ([Inr None, Inr None, Inr None],
      \<lparr>safe_flag = False, disk = example_disk\<lparr>clock := 60\<rparr>\<rparr>)"
  using disable_caching_is_permanent [of py_env
     "[(\<lambda>s. s, ReadStsCredentials example_arn),
       (\<lambda>s. s\<lparr>clock := 60\<rparr>, WriteStsCredentials example_arn example_creds),
       (\<lambda>s. s, ReadIdToken (Some example_issuer) (Some example_client) (JStr ''secret''))]"
     "\<lparr>safe_flag = True, disk = example_disk\<rparr>"]
  by simp

subsection \<open>The clock-skew allowance\<close>



subsection \<open>A token that does not verify\<close>

text \<open>
  Claim C9. When the cached id-token entry holds a token that \<^verbatim>\<open>jwt.decode\<close> rejects for the
  given key and audience (it raises a \<^verbatim>\<open>JOSEError\<close>: bad signature, malformed token, wrong
  audience, unsupported algorithm), \<open>read_id_token\<close> returns \<^verbatim>\<open>None\<close> and does not raise, at
  every time of reading and so whatever expiry the token claims.
\<close>

theorem unverifiable_id_token_is_a_miss:
  assumes "content s (id_token_path E iss cid) = Some txt"
    and "json_load E txt = Inr token"
    and "subscript token ''id_token'' = Inr t"
    and "jwt_decode E t key cid = Inl JOSEError"
  shows "fst (read_id_token E safe (Some iss) (Some cid) key (s\<lparr>clock := now\<rparr>)) = Inr None"
proof (cases safe)
  case False
  then show ?thesis by (simp add: read_id_token_unsafe)
next
  case True
  obtain n where n: "files (s\<lparr>clock := now\<rparr>) (id_token_path E iss cid) = Some n" "data n = txt"
    using assms(1) by (auto simp: content_def)
  show ?thesis
  proof (cases "holds (s\<lparr>clock := now\<rparr>) (id_token_path E iss cid) (data n)")
    case h: True
    show ?thesis using True assms(2-4) n(2)
      by (simp add: read_id_token_holds [OF h] decode_id_token_def)
  next
    case False
    then show ?thesis using True read_id_token_not_holds [OF n(1)] by simp
  qed
qed

theorem unverifiable_id_token_is_a_miss_witness:
  "exp_claim example_claims = Inr 4070908800
   \<and> fst (read_id_token py_env True (Some example_issuer) (Some example_client)
            (JStr ''another key'') (example_disk\<lparr>clock := 0\<rparr>)) = Inr None"
proof -
  have 1: "content example_disk (id_token_path py_env example_issuer example_client)
             = Some (dumps_indent 0 example_token @ ''\<newline>'')"
    using example_paths_differ
    by (simp add: content_def example_disk_def fs_of_def file_node_def)
  have 2: "json_load py_env (dumps_indent 0 example_token @ ''\<newline>'') = Inr example_token"
    by (simp only: example_env example_token_text)
  have 3: "subscript example_token ''id_token''
             = Inr (JStr (dumps_indent 0 (JObj example_claims) @ ''.secret''))"
    by (simp add: subscript_def example_token_def)
  have 4: "jwt_decode py_env (JStr (dumps_indent 0 (JObj example_claims) @ ''.secret''))
             (JStr ''another key'') example_client = Inl JOSEError"
    by (simp only: example_env example_token_forged)
  have 5: "exp_claim example_claims = Inr 4070908800"
    by (simp add: exp_claim_def example_claims_def)
  show ?thesis
    using unverifiable_id_token_is_a_miss [OF 1 2 3 4, of True 0] 5 by simp
qed

subsection \<open>Writing a file, and reading a file that cannot be used\<close>

lemma new_file_private: "private_mode (0x8000 OR (0x180 AND NOT u))"
  unfolding private_mode_def S_IRWXG_def S_IRWXO_def
  by (simp add: bit.conj_disj_distrib2 and.assoc and.left_commute)

lemma safe_write_usable:
  assumes "usable s p"
  shows "\<exists>s'. safe_write p (Inr txt) s = (Inr (), s') \<and> holds s' p txt
           \<and> modified s' p = Some (clock s) \<and> content s' p = Some txt
           \<and> clock s' = clock s \<and> (\<forall>q. q \<noteq> p \<longrightarrow> files s' q = files s q)"
  using assms new_file_private [of "umask s"]
  by (auto simp: usable_def safe_write_def os_open_trunc_def file_write_def holds_def
      modified_def content_def split: option.splits)

lemma repaired_exists:
  assumes "files s p = Some n"
  shows "\<exists>n'. files (repaired p s) p = Some n' \<and> st_mtime n' = st_mtime n \<and> data n' = data n"
  using assms
  by (auto simp: repaired_def readable_by_others_def Let_def os_stat_def fix_permissions_def
      os_chmod_def)

lemma read_group_role_map_not_holds:
  assumes "files s (rolemap_path E url) = Some n"
    and "\<not> holds s (rolemap_path E url) (data n)"
  shows "fst (read_group_role_map E True url s) = Inr None"
  using not_holds_cases [OF assms]
proof
  assume "\<not> private_mode (st_mode n) \<and> chmod_fails s (rolemap_path E url)"
  then show ?thesis
    using assms(1) rbo_cases [OF assms(1)]
    by (simp add: read_group_role_map_def requires_safe_cache_dir_def os_path_exists_def)
next
  assume h: "(private_mode (st_mode n) \<or> \<not> chmod_fails s (rolemap_path E url))
     \<and> open_read_fails s (rolemap_path E url)"
  then have b: "\<not> (\<not> private_mode (st_mode n) \<and> chmod_fails s (rolemap_path E url))"
    by blast
  obtain n' where n': "files (repaired (rolemap_path E url) s) (rolemap_path E url) = Some n'"
    using repaired_exists [OF assms(1)] by blast
  show ?thesis
    using assms(1) rbo_cases [OF assms(1)] b h n'
      open_read_fails_repaired [of s "rolemap_path E url"]
    by (simp add: read_group_role_map_def requires_safe_cache_dir_def os_path_exists_def
        except_os_def os_stat_def Let_def)
qed


lemma modified_clock [simp]: "modified (s\<lparr>clock := t\<rparr>) p = modified s p"
  by (simp add: modified_def)

lemma content_clock [simp]: "content (s\<lparr>clock := t\<rparr>) p = content s p"
  by (simp add: content_def)

lemma write_group_role_map_usable:
  assumes "usable s (rolemap_path E url)"
  shows "\<exists>s'. write_group_role_map E True url role_map s = (Inr None, s')
           \<and> holds s' (rolemap_path E url) (json_dump E role_map @ ''\<newline>'')
           \<and> modified s' (rolemap_path E url) = Some (clock s)"
  using safe_write_usable [OF assms, of "json_dump E role_map @ ''\<newline>''"]
  by (auto simp: write_group_role_map_def requires_safe_cache_dir_def except_os_def)

subsection \<open>The life time of the role map\<close>

lemma example_role_map_text:
  "json_loads (dumps_indent 0 example_role_map @ ''\<newline>'') = Inr example_role_map"
  unfolding example_role_map_def by code_simp

lemma role_map_disk_written:
  "holds role_map_disk (rolemap_path py_env example_url)
     (dumps_indent 0 example_role_map @ ''\<newline>'')
   \<and> modified role_map_disk (rolemap_path py_env example_url) = Some 0"
proof -
  have "usable (fs_of [] 0) (rolemap_path py_env example_url)"
    by (simp add: usable_def fs_of_def)
  from write_group_role_map_usable [OF this, of example_role_map]
  show ?thesis by (auto simp: role_map_disk_def fs_of_def)
qed

text \<open>
  Claim C3, as stated, fails at the boundary: a role map written at time 0 and read at time
  3600, when its age is exactly 3600 seconds, is a hit. The source compares with \<^verbatim>\<open>>\<close>.
\<close>

theorem role_map_hit_at_exactly_an_hour:
  "(3600 :: real) - 0 \<ge> 3600
   \<and> modified role_map_disk (rolemap_path py_env example_url) = Some 0
   \<and> fst (read_group_role_map py_env True example_url (role_map_disk\<lparr>clock := 3600\<rparr>))
       = Inr (Some (PJson example_role_map))"
proof -
  have h: "holds (role_map_disk\<lparr>clock := 3600\<rparr>) (rolemap_path py_env example_url)
             (dumps_indent 0 example_role_map @ ''\<newline>'')"
    using role_map_disk_written by simp
  have m: "modified (role_map_disk\<lparr>clock := 3600\<rparr>) (rolemap_path py_env example_url) = Some 0"
    using role_map_disk_written by simp
  show ?thesis
    using role_map_disk_written
    by (simp add: read_group_role_map_holds [OF h m] GROUP_ROLE_MAP_CACHE_TIME_def
        example_role_map_text)
qed

text \<open>
  Claim C3, amended. A role map file with modification time \<open>t_write\<close> is a miss for every
  read at a time \<open>t_read\<close> with \<open>t_read - t_write > 3600\<close>, whatever its content; for
  \<open>t_read - t_write \<le> 3600\<close> it is a
  hit that returns the stored map, when the file can be read and holds the JSON of a map.
\<close>

theorem role_map_expires_after_an_hour:
  assumes "modified s (rolemap_path E url) = Some t_write"
  shows "(t_read - t_write > GROUP_ROLE_MAP_CACHE_TIME \<longrightarrow>
            fst (read_group_role_map E safe url (s\<lparr>clock := t_read\<rparr>)) = Inr None)
       \<and> (t_read - t_write \<le> GROUP_ROLE_MAP_CACHE_TIME \<and> holds s (rolemap_path E url) doc
            \<and> json_load E doc = Inr role_map \<longrightarrow>
            fst (read_group_role_map E True url (s\<lparr>clock := t_read\<rparr>)) = Inr (Some (PJson role_map)))"
proof (intro conjI impI)
  assume late: "t_read - t_write > GROUP_ROLE_MAP_CACHE_TIME"
  let ?s = "s\<lparr>clock := t_read\<rparr>"
  have m: "modified ?s (rolemap_path E url) = Some t_write" using assms by simp
  then obtain n where n: "files ?s (rolemap_path E url) = Some n"
    by (auto simp: modified_def)
  show "fst (read_group_role_map E safe url ?s) = Inr None"
  proof (cases safe)
    case False
    then show ?thesis by (simp add: read_group_role_map_def requires_safe_cache_dir_def)
  next
    case True
    show ?thesis
    proof (cases "holds ?s (rolemap_path E url) (data n)")
      case h: True
      show ?thesis using True late by (simp add: read_group_role_map_holds [OF h m])
    next
      case False
      then show ?thesis using True read_group_role_map_not_holds [OF n] by simp
    qed
  qed
next
  assume a: "t_read - t_write \<le> GROUP_ROLE_MAP_CACHE_TIME \<and> holds s (rolemap_path E url) doc
     \<and> json_load E doc = Inr role_map"
  let ?s = "s\<lparr>clock := t_read\<rparr>"
  have m: "modified ?s (rolemap_path E url) = Some t_write" using assms by simp
  have h: "holds ?s (rolemap_path E url) doc" using a by simp
  show "fst (read_group_role_map E True url ?s) = Inr (Some (PJson role_map))"
    using a by (simp add: read_group_role_map_holds [OF h m])
qed

theorem role_map_expires_after_an_hour_witness:
  "fst (read_group_role_map py_env True example_url (role_map_disk\<lparr>clock := 3601\<rparr>)) = Inr None
   \<and> fst (read_group_role_map py_env True example_url (role_map_disk\<lparr>clock := 1800\<rparr>))
       = Inr (Some (PJson example_role_map))"
proof -
  have m: "modified role_map_disk (rolemap_path py_env example_url) = Some 0"
    using role_map_disk_written by simp
  have h: "holds role_map_disk (rolemap_path py_env example_url)
             (dumps_indent 0 example_role_map @ ''\<newline>'')"
    using role_map_disk_written by simp
  have j: "json_load py_env (dumps_indent 0 example_role_map @ ''\<newline>'') = Inr example_role_map"
    by (simp only: example_env example_role_map_text)
  show ?thesis
    using role_map_expires_after_an_hour [OF m, where t_read = 3601 and safe = True]
      role_map_expires_after_an_hour [OF m, where t_read = 1800
        and doc = "dumps_indent 0 example_role_map @ ''\<newline>''"
        and role_map = example_role_map] h j
    by (simp add: GROUP_ROLE_MAP_CACHE_TIME_def)
qed

subsection \<open>The round trip of STS credentials\<close>









subsection \<open>Entries that are not well formed\<close>










subsection \<open>Writing the shared credentials file\<close>

lemma read_shared_state:
  "snd (read_aws_shared_credentials E True s) = repaired (credentials_path E) s"
proof (cases "files s (credentials_path E)")
  case None
  then show ?thesis
    by (simp add: read_aws_shared_credentials_def requires_safe_cache_dir_def
        os_path_exists_def repaired_missing Let_def)
next
  case (Some n)
  show ?thesis
    using Some rbo_cases [OF Some]
    by (simp add: read_aws_shared_credentials_def requires_safe_cache_dir_def
        os_path_exists_def Let_def except_os_def split: sum.splits bool.splits)
qed

lemma read_shared_result:
  "fst (read_aws_shared_credentials E True s) =
     (case existing_config E s of Inl e \<Rightarrow> Inl e | Inr c \<Rightarrow> Inr (Some (PConfig c)))"
proof (cases "files s (credentials_path E)")
  case None
  then show ?thesis
    by (simp add: existing_config_def read_aws_shared_credentials_def
        requires_safe_cache_dir_def os_path_exists_def Let_def)
next
  case (Some n)
  show ?thesis
    using Some rbo_cases [OF Some]
    by (simp add: existing_config_def read_aws_shared_credentials_def
        requires_safe_cache_dir_def os_path_exists_def Let_def except_os_def
        split: sum.splits bool.splits)
qed

lemma write_shared_eq:
  "write_aws_shared_credentials E True credentials s =
     (case merged_config E credentials s of
        Inl e \<Rightarrow> (Inl e, repaired (credentials_path E) s)
      | Inr c \<Rightarrow>
          (case safe_write (credentials_path E) (Inr (config_write c))
                  (repaired (credentials_path E) s) of
             (r, s2) \<Rightarrow> (except_os None r (Some (PPath (credentials_path E))), s2)))"
proof -
  have "read_aws_shared_credentials E True s =
          (case existing_config E s of Inl e \<Rightarrow> Inl e | Inr c \<Rightarrow> Inr (Some (PConfig c)),
           repaired (credentials_path E) s)"
    using read_shared_state [of E s] read_shared_result [of E s]
    by (metis prod.collapse)
  then show ?thesis
    by (simp add: write_aws_shared_credentials_def requires_safe_cache_dir_def merged_config_def
        Let_def split: sum.splits)
qed

lemma existing_config_holds:
  assumes "holds s (credentials_path E) doc"
  shows "existing_config E s =
     (case read_file E doc of
        Inl e \<Rightarrow> (if e = OSError then Inr empty_config else Inl e)
      | Inr c \<Rightarrow> Inr c)"
  using holds_exists [OF assms] rbo_holds [OF assms] holds_open_read [OF assms]
  by (simp add: existing_config_def read_aws_shared_credentials_def
      requires_safe_cache_dir_def Let_def except_os_def split: sum.splits)

lemma existing_config_not_holds:
  assumes "files s (credentials_path E) = Some n"
    and "\<not> holds s (credentials_path E) (data n)"
  shows "existing_config E s = Inr empty_config"
  using not_holds_cases [OF assms]
proof
  assume "\<not> private_mode (st_mode n) \<and> chmod_fails s (credentials_path E)"
  then show ?thesis
    using assms(1) rbo_cases [OF assms(1)]
    by (simp add: existing_config_def read_aws_shared_credentials_def
        requires_safe_cache_dir_def os_path_exists_def Let_def)
next
  assume h: "(private_mode (st_mode n) \<or> \<not> chmod_fails s (credentials_path E))
     \<and> open_read_fails s (credentials_path E)"
  then have b: "\<not> (\<not> private_mode (st_mode n) \<and> chmod_fails s (credentials_path E))"
    by blast
  show ?thesis
    using assms(1) rbo_cases [OF assms(1)] b h
      open_read_fails_repaired [of s "credentials_path E"]
    by (simp add: existing_config_def read_aws_shared_credentials_def
        requires_safe_cache_dir_def os_path_exists_def Let_def except_os_def)
qed

lemma existing_config_missing:
  "files s (credentials_path E) = None \<Longrightarrow> existing_config E s = Inr empty_config"
  by (simp add: existing_config_def read_aws_shared_credentials_def
      requires_safe_cache_dir_def os_path_exists_def Let_def)

lemma safe_write_open_fails:
  "open_write_fails s p \<Longrightarrow> safe_write p body s = (Inl OSError, s)"
  by (simp add: safe_write_def os_open_trunc_def)

lemma safe_write_opened:
  assumes "\<not> open_write_fails s p"
  shows "safe_write p (Inr doc) s =
     (let written = (case write_limit s p of None \<Rightarrow> doc | Some k \<Rightarrow> take k doc)
      in (if length written < length doc then Inl OSError else Inr (),
          snd (safe_write p (Inr doc) s)))
     \<and> content (snd (safe_write p (Inr doc) s)) p
         = Some (case write_limit s p of None \<Rightarrow> doc | Some k \<Rightarrow> take k doc)"
  using assms
  by (auto simp: safe_write_def os_open_trunc_def file_write_def content_def Let_def
      split: option.splits)

subsection \<open>The view of a merge\<close>

lemma over_assoc: "over (over U V) W = over U (over V W)"
  by (auto simp: over_def fun_eq_iff map_add_def split: option.splits)


lemma over_no_view [simp]: "over V no_view = V" "over no_view V = V"
  by (cases V; auto simp: over_def no_view_def fun_eq_iff split: option.splits)+

lemma view_sections:
  "snd (view c) sec = map_option map_of (map_of (sections c) sec)"
  by (simp add: view_def)

lemma has_section_dom: "has_section c sec \<longleftrightarrow> map_of (sections c) sec \<noteq> None"
  by (simp add: has_section_def map_of_eq_None_iff)

lemma view_add_section:
  assumes "add_section c sec = Inr c'"
  shows "view c' = over (view c) (Map.empty, [sec \<mapsto> Map.empty])"
  using assms
  by (auto simp: add_section_def view_def over_def fun_eq_iff has_section_dom map_add_def
      split: if_splits option.splits)

lemma view_has_section:
  assumes "has_section c sec"
  shows "view c = over (view c) (Map.empty, [sec \<mapsto> Map.empty])"
  using assms
  by (auto simp: view_def over_def fun_eq_iff has_section_dom split: option.splits)

lemma view_config_set:
  assumes "config_set E c sec k v = Inr c'"
  shows "view c' = over (view c) (delta_set E sec k v)"
proof -
  have st: "(if v = [] then Inr v else before_set E v) = Inr (stored E v)"
    using assms by (auto simp: config_set_def stored_def split: sum.splits if_splits)
  show ?thesis
  proof (cases "sec = [] \<or> sec = ''DEFAULT''")
    case True
    then have "c' = c\<lparr>defaults := AList.update (optionxform k) (stored E v) (defaults c)\<rparr>"
      using assms st by (auto simp: config_set_def split: sum.splits)
    then show ?thesis using True
      by (auto simp: view_def over_def delta_set_def update_conv' fun_eq_iff map_add_def
          split: option.splits)
  next
    case False
    then have c': "has_section c sec"
       "c' = c\<lparr>sections := AList.map_entry sec (AList.update (optionxform k) (stored E v))
                 (sections c)\<rparr>"
      using assms st by (auto simp: config_set_def split: sum.splits if_splits)
    show ?thesis using False c'
      by (auto simp: view_def over_def delta_set_def update_conv' map_of_map_entry fun_eq_iff
          map_add_def has_section_dom split: option.splits)
  qed
qed

lemma view_set_items:
  "set_items E c sec kvs = Inr c' \<Longrightarrow> view c' = over (view c) (delta_items E sec kvs)"
proof (induction kvs arbitrary: c)
  case Nil
  then show ?case by simp
next
  case (Cons a kvs)
  obtain k v where a: "a = (k, v)" by (cases a)
  from Cons.prems obtain c1 where c1: "config_set E c sec k v = Inr c1"
      "set_items E c1 sec kvs = Inr c'"
    by (auto simp: a split: sum.splits)
  show ?case
    using Cons.IH [OF c1(2)] view_config_set [OF c1(1)] by (simp add: a over_assoc)
qed

lemma view_add_credentials:
  "add_credentials E c credentials = Inr c' \<Longrightarrow> view c' = over (view c) (delta E credentials)"
proof (induction credentials arbitrary: c)
  case Nil
  then show ?case by simp
next
  case (Cons a rest)
  obtain sec items where a: "a = (sec, items)" by (cases a)
  from Cons.prems obtain c1 c2
    where c1: "(if \<not> has_section c sec then add_section c sec else Inr c) = Inr c1"
      and c2: "set_items E c1 sec items = Inr c2"
      and c3: "add_credentials E c2 rest = Inr c'"
    by (auto simp: a split: sum.splits)
  have "view c1 = over (view c) (Map.empty, [sec \<mapsto> Map.empty])"
    using c1 view_add_section [of c sec c1] view_has_section [of c sec]
    by (auto split: if_splits)
  then show ?case
    using Cons.IH [OF c3] view_set_items [OF c2] by (simp add: a over_assoc)
qed

lemma map_of_filter_key: "map_of (filter (\<lambda>p. fst p = k) xs) k = map_of xs k"
  by (induction xs) auto

lemma map_of_sort_key: "map_of (sort_key fst xs) = map_of xs"
proof
  fix k :: 'a
  have "map_of (sort_key fst xs) k = map_of (filter (\<lambda>p. fst p = k) (sort_key fst xs)) k"
    by (simp add: map_of_filter_key)
  also have "\<dots> = map_of (filter (\<lambda>p. fst p = k) xs) k"
    by (simp add: sort_key_stable)
  finally show "map_of (sort_key fst xs) k = map_of xs k"
    by (simp add: map_of_filter_key)
qed

lemma view_order_sections: "view (order_sections c) = view c"
  by (simp add: view_def order_sections_def map_of_sort_key)

lemma untouched_over: "untouched U sec k \<Longrightarrow> untouched W sec k \<Longrightarrow> untouched (over U W) sec k"
  by (auto simp: untouched_def over_def map_add_def split: option.splits)

lemma untouched_basic [simp]:
  "untouched no_view sec k" "untouched (Map.empty, [sec' \<mapsto> Map.empty]) sec k"
  by (auto simp: untouched_def no_view_def)

lemma untouched_delta_set:
  "sec' \<noteq> sec \<or> optionxform k' \<noteq> k \<Longrightarrow> untouched (delta_set E sec' k' v) sec k"
  by (auto simp: untouched_def delta_set_def)

lemma untouched_delta_items:
  "sec' \<noteq> sec \<or> \<not> list_ex (\<lambda>(k', v). optionxform k' = k) kvs \<Longrightarrow>
     untouched (delta_items E sec' kvs) sec k"
  by (induction kvs) (auto intro!: untouched_over untouched_delta_set)

lemma untouched_delta:
  "\<not> names credentials sec k \<Longrightarrow> untouched (delta E credentials) sec k"
  by (induction credentials)
    (auto simp: names_def intro!: untouched_over untouched_delta_items)

lemma kept_over:
  assumes "snd V sec = Some m" "m k = Some v" "untouched W sec k"
  shows "\<exists>m'. snd (over V W) sec = Some m' \<and> m' k = Some v"
  using assms by (auto simp: untouched_def over_def map_add_def split: option.splits)

lemma write_shared_success:
  assumes "fst (write_aws_shared_credentials E True credentials s) = Inr (Some w)"
  shows "\<exists>c. merged_config E credentials s = Inr c
           \<and> content (snd (write_aws_shared_credentials E True credentials s))
                (credentials_path E) = Some (config_write c)
           \<and> w = PPath (credentials_path E)
           \<and> \<not> open_write_fails s (credentials_path E)
           \<and> (case write_limit s (credentials_path E) of
                 None \<Rightarrow> True | Some k \<Rightarrow> length (config_write c) \<le> k)"
proof (cases "merged_config E credentials s")
  case (Inl e)
  then show ?thesis using assms by (simp add: write_shared_eq)
next
  case (Inr c)
  let ?p = "credentials_path E"
  show ?thesis
  proof (cases "open_write_fails s ?p")
    case True
    then have "safe_write ?p (Inr (config_write c)) (repaired ?p s) = (Inl OSError, repaired ?p s)"
      by (simp add: safe_write_open_fails)
    then show ?thesis using Inr assms by (simp add: write_shared_eq except_os_def)
  next
    case False
    then have nf: "\<not> open_write_fails (repaired ?p s) ?p" by simp
    show ?thesis
      using Inr False assms safe_write_opened [OF nf, of "config_write c"]
      by (cases "write_limit s ?p")
        (auto simp: write_shared_eq except_os_def Let_def split: prod.splits if_splits)
  qed
qed

subsection \<open>The example of a shared credentials file\<close>

lemma shared_text_read: "ini_read shared_text = Inr work_profile"
  unfolding shared_text_def work_profile_def by code_simp

lemma merged_on_work:
  "(case add_credentials py_env work_profile new_credentials of
      Inl e \<Rightarrow> Inl e | Inr c \<Rightarrow> Inr (order_sections c)) = Inr merged_profiles"
  unfolding work_profile_def new_credentials_def merged_profiles_def py_env_def by code_simp

lemma merged_on_empty:
  "(case add_credentials py_env empty_config new_credentials of
      Inl e \<Rightarrow> Inl e | Inr c \<Rightarrow> Inr (order_sections c)) = Inr default_profile"
  unfolding empty_config_def new_credentials_def default_profile_def py_env_def by code_simp

lemma default_profile_text:
  "config_write default_profile =
     ''[default]\<newline>aws_access_key_id = ASIANEWKEY\<newline>aws_secret_access_key = newsecret\<newline>aws_session_token = newtoken\<newline>\<newline>''"
  unfolding default_profile_def by code_simp


lemma shared_disk_holds:
  "holds shared_disk (credentials_path py_env) shared_text"
  "holds full_disk (credentials_path py_env) shared_text"
  by (simp_all add: holds_def shared_disk_def full_disk_def fs_of_def file_node_def
      private_mode_def S_IRWXG_def S_IRWXO_def)

lemma shared_disk_merged:
  "merged_config py_env new_credentials shared_disk = Inr merged_profiles"
  "merged_config py_env new_credentials full_disk = Inr merged_profiles"
  unfolding merged_config_def existing_config_holds [OF shared_disk_holds(1)]
    existing_config_holds [OF shared_disk_holds(2)] example_env shared_text_read
  by (simp_all only: sum.case merged_on_work)

lemma foreign_disk_merged:
  "merged_config py_env new_credentials foreign_disk = Inr default_profile"
proof -
  have f: "files foreign_disk (credentials_path py_env) = Some (file_node 0x1B6 0 shared_text)"
    by (simp add: foreign_disk_def fs_of_def)
  have "\<not> holds foreign_disk (credentials_path py_env) (data (file_node 0x1B6 0 shared_text))"
    by (simp add: holds_def foreign_disk_def fs_of_def file_node_def private_mode_def
        S_IRWXG_def S_IRWXO_def)
  from existing_config_not_holds [OF f this] show ?thesis
    unfolding merged_config_def by (simp only: sum.case merged_on_empty)
qed

lemma shared_write:
  "fst (write_aws_shared_credentials py_env True new_credentials shared_disk)
     = Inr (Some (PPath (credentials_path py_env)))"
proof -
  have u: "usable (repaired (credentials_path py_env) shared_disk) (credentials_path py_env)"
    by (simp add: usable_def shared_disk_def fs_of_def split: option.splits)
  show ?thesis
    using safe_write_usable [OF u, of "config_write merged_profiles"]
    by (auto simp: write_shared_eq shared_disk_merged except_os_def)
qed

lemma foreign_write:
  "fst (write_aws_shared_credentials py_env True new_credentials foreign_disk)
     = Inr (Some (PPath (credentials_path py_env)))
   \<and> content (snd (write_aws_shared_credentials py_env True new_credentials foreign_disk))
       (credentials_path py_env) = Some (config_write default_profile)"
proof -
  have nf: "\<not> open_write_fails (repaired (credentials_path py_env) foreign_disk)
              (credentials_path py_env)"
    by (simp add: foreign_disk_def fs_of_def)
  have wl: "write_limit (repaired (credentials_path py_env) foreign_disk)
              (credentials_path py_env) = None"
    by (simp add: foreign_disk_def fs_of_def)
  show ?thesis
    using safe_write_opened [OF nf, of "config_write default_profile"] wl
    by (auto simp: write_shared_eq foreign_disk_merged except_os_def Let_def
        split: prod.splits)
qed


lemma example_disk_contents:
  "content full_disk (credentials_path py_env) = Some shared_text"
  "content foreign_disk (credentials_path py_env) = Some shared_text"
  by (simp_all add: content_def full_disk_def shared_disk_def foreign_disk_def fs_of_def
      file_node_def)

subsection \<open>A failed write\<close>




subsection \<open>Merging into a file that is there\<close>

text \<open>
  Claim C7, as stated, fails: a shared credentials file with the section \<^verbatim>\<open>[work]\<close> that
  others can write and whose mode cannot be changed is not read; the merge starts from an
  empty configuration, and after the write of a new section \<^verbatim>\<open>[default]\<close>, which does not
  mention \<^verbatim>\<open>[work]\<close>, the file holds \<^verbatim>\<open>[default]\<close> alone.
\<close>

theorem unread_sections_are_lost:
  "content foreign_disk (credentials_path py_env) = Some shared_text
   \<and> ini_read shared_text = Inr work_profile
   \<and> \<not> names new_credentials ''work'' ''aws_access_key_id''
   \<and> fst (write_aws_shared_credentials py_env True new_credentials foreign_disk)
       = Inr (Some (PPath (credentials_path py_env)))
   \<and> content (snd (write_aws_shared_credentials py_env True new_credentials foreign_disk))
       (credentials_path py_env)
       = Some ''[default]\<newline>aws_access_key_id = ASIANEWKEY\<newline>aws_secret_access_key = newsecret\<newline>aws_session_token = newtoken\<newline>\<newline>''"
proof -
  have "\<not> names new_credentials ''work'' ''aws_access_key_id''"
    by (simp add: names_def new_credentials_def)
  then show ?thesis
    using example_disk_contents(2) shared_text_read foreign_write
    by (simp only: default_profile_text) simp
qed

text \<open>
  Claim C7, amended. When the existing shared credentials file is read (it is there, it is
  private or can be made private, it can be opened and parsed) and the write succeeds, every
  option of a section of the file that the new credentials do not set (under the lowering
  of option names) is in the written configuration with its old value.
\<close>

theorem merge_keeps_unrelated_options:
  assumes "holds s (credentials_path E) doc"
    and "read_file E doc = Inr c0"
    and "map_of (sections c0) sec = Some items"
    and "map_of items k = Some v"
    and "\<not> names credentials sec k"
    and "fst (write_aws_shared_credentials E True credentials s) = Inr (Some w)"
  shows "\<exists>c items'.
           content (snd (write_aws_shared_credentials E True credentials s)) (credentials_path E)
             = Some (config_write c)
         \<and> map_of (sections c) sec = Some items' \<and> map_of items' k = Some v"
proof -
  obtain c where c: "merged_config E credentials s = Inr c"
    and w: "content (snd (write_aws_shared_credentials E True credentials s))
              (credentials_path E) = Some (config_write c)"
    using write_shared_success [OF assms(6)] by blast
  have "existing_config E s = Inr c0"
    using assms(2) by (simp add: existing_config_holds [OF assms(1)])
  then obtain c1 where c1: "add_credentials E c0 credentials = Inr c1" "c = order_sections c1"
    using c by (auto simp: merged_config_def split: sum.splits)
  have v: "view c = over (view c0) (delta E credentials)"
    using view_add_credentials [OF c1(1)] c1(2) by (simp add: view_order_sections)
  have "snd (view c0) sec = Some (map_of items)" "map_of items k = Some v"
    using assms(3,4) by (simp_all add: view_def)
  then obtain m' where "snd (view c) sec = Some m'" "m' k = Some v"
    using kept_over [OF _ _ untouched_delta [OF assms(5)]] v by metis
  then obtain items' where "map_of (sections c) sec = Some items'" "map_of items' k = Some v"
    by (auto simp: view_def)
  then show ?thesis using w by blast
qed

theorem merge_keeps_unrelated_options_witness:
  "\<exists>c items'.
      content (snd (write_aws_shared_credentials py_env True new_credentials shared_disk))
        (credentials_path py_env) = Some (config_write c)
    \<and> map_of (sections c) ''work'' = Some items'
    \<and> map_of items' ''aws_access_key_id'' = Some ''AKIAOLDKEY''"
proof -
  have 1: "read_file py_env shared_text = Inr work_profile"
    by (simp only: example_env shared_text_read)
  have 2: "map_of (sections work_profile) ''work''
             = Some [(''aws_access_key_id'', ''AKIAOLDKEY''),
                     (''aws_secret_access_key'', ''oldsecret'')]"
    by (simp add: work_profile_def)
  have 3: "map_of [(''aws_access_key_id'', ''AKIAOLDKEY''),
                   (''aws_secret_access_key'', ''oldsecret'')] ''aws_access_key_id''
             = Some ''AKIAOLDKEY''"
    by simp
  have 4: "\<not> names new_credentials ''work'' ''aws_access_key_id''"
    by (simp add: names_def new_credentials_def)
  show ?thesis
    by (rule merge_keeps_unrelated_options [OF shared_disk_holds(1) 1 2 3 4 shared_write])
qed

subsection \<open>Merging twice\<close>














lemma safe_write_fields [simp]:
  "open_write_fails (snd (safe_write p body s)) = open_write_fails s"
  "open_read_fails (snd (safe_write p body s)) = open_read_fails s"
  "chmod_fails (snd (safe_write p body s)) = chmod_fails s"
  "write_limit (snd (safe_write p body s)) = write_limit s"
  by (auto simp: safe_write_def os_open_trunc_def file_write_def Let_def
      split: sum.splits option.splits)



lemma existing_config_clock [simp]: "existing_config E (s\<lparr>clock := t\<rparr>) = existing_config E s"
proof (cases "files s (credentials_path E)")
  case None
  then show ?thesis by (simp add: existing_config_missing)
next
  case (Some n)
  show ?thesis
  proof (cases "holds s (credentials_path E) (data n)")
    case True
    then have "holds (s\<lparr>clock := t\<rparr>) (credentials_path E) (data n)" by simp
    then show ?thesis using True by (simp add: existing_config_holds)
  next
    case False
    then have "\<not> holds (s\<lparr>clock := t\<rparr>) (credentials_path E) (data n)" by simp
    moreover have "files (s\<lparr>clock := t\<rparr>) (credentials_path E) = Some n" using Some by simp
    ultimately show ?thesis using False Some by (simp add: existing_config_not_holds)
  qed
qed

lemma merged_config_clock [simp]:
  "merged_config E credentials (s\<lparr>clock := t\<rparr>) = merged_config E credentials s"
  by (simp add: merged_config_def)






end
